theory Spec2Isabelle
  imports Main
begin

section \<open>The runner of the longest-flow-path programs (Source/main.cpp)\<close>

text \<open>
  The development embeds the functions of \<^verbatim>\<open>Source/main.cpp\<close>: \<^verbatim>\<open>algorithmLabel\<close>,
  \<^verbatim>\<open>createMultipleAlgorithm\<close>, \<^verbatim>\<open>createAlgorithm\<close>, \<^verbatim>\<open>printUsage\<close>,
  \<^verbatim>\<open>loadOutletLocations\<close>, \<^verbatim>\<open>printCells\<close>, \<^verbatim>\<open>executeMeasurement\<close> and \<^verbatim>\<open>main\<close>.
  Values of the C++ type \<^verbatim>\<open>int\<close> are HOL integers; where the source narrows or
  overflows, the 32-bit range is written out.
\<close>

subsection \<open>Characters and numbers as the C and C++ libraries read and print them\<close>

text \<open>The white space of \<^verbatim>\<open>isspace\<close> in the classic locale: space, \<^verbatim>\<open>\t \n \v \f \r\<close>.\<close>

definition isspace :: "char \<Rightarrow> bool" where
  "isspace c \<longleftrightarrow>
     c = CHR '' '' \<or> c = CHR 0x09 \<or> c = CHR ''\<newline>'' \<or> c = CHR 0x0B \<or> c = CHR 0x0C \<or> c = CHR 0x0D"

definition isdigit :: "char \<Rightarrow> bool" where
  "isdigit c \<longleftrightarrow> c \<in> set ''0123456789''"

definition digit_value :: "char \<Rightarrow> int" where
  "digit_value c = int (of_char c) - 48"

definition decimal :: "string \<Rightarrow> int" where
  "decimal ds = foldl (\<lambda>a c. 10 * a + digit_value c) 0 ds"

definition INT_MAX :: int where
  "INT_MAX = 2147483647"

definition INT_MIN :: int where
  "INT_MIN = - 2147483648"

definition representable :: "int \<Rightarrow> bool" where
  "representable v \<longleftrightarrow> INT_MIN \<le> v \<and> v \<le> INT_MAX"

text \<open>Conversion of an integer to \<^verbatim>\<open>int\<close> where the value may not fit: reduction modulo \<open>2^32\<close>.\<close>

definition to_int32 :: "int \<Rightarrow> int" where
  "to_int32 v = (v + 2147483648) mod 4294967296 - 2147483648"

text \<open>An optional sign, as both \<^verbatim>\<open>atoi\<close> and \<^verbatim>\<open>operator>>\<close> accept it before the digits.\<close>

definition take_sign :: "string \<Rightarrow> bool \<times> string" where
  "take_sign s =
     (case s of
        [] \<Rightarrow> (False, [])
      | c # t \<Rightarrow> if c = CHR ''-'' then (True, t) else if c = CHR ''+'' then (False, t) else (False, s))"

text \<open>
  \<^verbatim>\<open>strtol\<close> in base ten: skips white space, reads an optional sign and the longest run
  of decimal digits, and yields 0 when there is no digit; a value outside the range of
  a 64-bit \<^verbatim>\<open>long\<close> is replaced by the nearest bound.
\<close>

definition LONG_MAX :: int where
  "LONG_MAX = 9223372036854775807"

definition LONG_MIN :: int where
  "LONG_MIN = - 9223372036854775808"

definition strtol :: "string \<Rightarrow> int" where
  "strtol s =
     (let (neg, t) = take_sign (dropWhile isspace s);
          v = decimal (takeWhile isdigit t);
          l = (if neg then - v else v)
      in if l < LONG_MIN then LONG_MIN else if LONG_MAX < l then LONG_MAX else l)"

text \<open>
  \<^verbatim>\<open>atoi\<close>, as the GNU C library has it: \<^verbatim>\<open>(int) strtol(s, NULL, 10)\<close>. The C standard
  leaves the result open when the value does not fit an \<^verbatim>\<open>int\<close>; here the \<^verbatim>\<open>long\<close>
  is reduced to 32 bits.
\<close>

definition atoi :: "string \<Rightarrow> int" where
  "atoi s = to_int32 (strtol s)"

text \<open>\<^verbatim>\<open>operator<<\<close> on an \<^verbatim>\<open>int\<close>: the decimal digits, with a minus sign when negative.\<close>

fun show_nat :: "nat \<Rightarrow> string" where
  "show_nat n =
     (if n < 10 then [''0123456789'' ! n]
      else show_nat (n div 10) @ [''0123456789'' ! (n mod 10)])"

declare show_nat.simps [simp del]

definition show_int :: "int \<Rightarrow> string" where
  "show_int i = (if i < 0 then CHR ''-'' # show_nat (nat (- i)) else show_nat (nat i))"

definition endl :: string where
  "endl = ''\<newline>''"

subsection \<open>Data\<close>

text \<open>\<^verbatim>\<open>CellLocation\<close>: the struct built as \<^verbatim>\<open>{row, col}\<close> and read through \<^verbatim>\<open>.row\<close>, \<^verbatim>\<open>.col\<close>.\<close>

record CellLocation =
  row :: int
  col :: int

text \<open>
  Modelled from the spec: the header of \<^verbatim>\<open>FlowDirectionMatrix\<close> is not among the sources.
  The runner reads its \<^verbatim>\<open>height\<close> and \<^verbatim>\<open>width\<close>; the spec describes a dense row-major
  array of direction codes and the test \<open>inBounds(r, c)\<close>: \<open>1 \<le> r \<le> height\<close> and
  \<open>1 \<le> c \<le> width\<close>.
\<close>

record FlowDirectionMatrix =
  height :: int
  width :: int
  codes :: "nat list"

definition inBounds :: "FlowDirectionMatrix \<Rightarrow> CellLocation \<Rightarrow> bool" where
  "inBounds m c \<longleftrightarrow> 1 \<le> row c \<and> row c \<le> height m \<and> 1 \<le> col c \<and> col c \<le> width m"

text \<open>
  The algorithm classes constructed by the runner. A pointer to an algorithm is an
  \<open>algorithm option\<close>, \<open>None\<close> being \<^verbatim>\<open>nullptr\<close>. Only \<^verbatim>\<open>RecursiveTaskLfp\<close> takes a
  constructor argument.
\<close>

datatype algorithm =
    RecursiveSeqLfp
  | RecursiveTaskLfp int
  | TopDownMaxSeqLfp
  | TopDownSingleSeqLfp
  | TopDownSingleOmpLfp
  | DoubleDropSeqLfp
  | DoubleDropOmpLfp

text \<open>A call of an algorithm's \<^verbatim>\<open>execute\<close> or \<^verbatim>\<open>executeMultiple\<close>, with its arguments.\<close>

datatype call =
    Execute algorithm FlowDirectionMatrix CellLocation
  | ExecuteMultiple algorithm FlowDirectionMatrix "CellLocation list"

text \<open>
  The collaborators whose code is outside \<^verbatim>\<open>main.cpp\<close> are parameters of the model:
  the raster loader, the two entry points of the algorithms, and the duration the clock
  measures around the call (after \<^verbatim>\<open>lround\<close>). They are taken as functions that return.
\<close>

record collaborators =
  loadGdal :: "string \<Rightarrow> FlowDirectionMatrix"
  execute :: "algorithm \<Rightarrow> FlowDirectionMatrix \<Rightarrow> CellLocation \<Rightarrow> CellLocation"
  executeMultiple :: "algorithm \<Rightarrow> FlowDirectionMatrix \<Rightarrow> CellLocation list \<Rightarrow> CellLocation list"
  elapsedMs :: int

text \<open>
  What a run can observe and change: the characters written to standard output, the
  files by name (an absent name is a file that cannot be opened for reading), the names
  on which \<^verbatim>\<open>std::ofstream::open\<close> succeeds, and the algorithm calls made so far.
\<close>

record world =
  stdout :: string
  files :: "string \<Rightarrow> string option"
  writable :: "string \<Rightarrow> bool"
  calls :: "call list"

definition print :: "string \<Rightarrow> world \<Rightarrow> world" where
  "print s w = w\<lparr>stdout := stdout w @ s\<rparr>"

text \<open>
  \<^verbatim>\<open>outfile.open(name); outfile << text; outfile.close()\<close>. The source does not test
  the stream: when the file cannot be opened the insertions do nothing and no file is
  written; otherwise the text replaces the content.
\<close>

definition write_file :: "string \<Rightarrow> string \<Rightarrow> world \<Rightarrow> world" where
  "write_file name text w =
     (if writable w name then w\<lparr>files := (files w)(name \<mapsto> text)\<rparr> else w)"

definition record_call :: "call \<Rightarrow> world \<Rightarrow> world" where
  "record_call c w = w\<lparr>calls := calls w @ [c]\<rparr>"

text \<open>
  Operations of \<^verbatim>\<open>main.cpp\<close> whose behaviour the C++ standard leaves undefined end the
  run in a fault: a call through a null pointer, \<^verbatim>\<open>operator[]\<close> beyond the end of a
  vector, a \<^verbatim>\<open>std::string\<close> built from a null \<^verbatim>\<open>char*\<close>, and overflow of an \<^verbatim>\<open>int\<close>
  loop counter.
\<close>

datatype fault =
    NullPointerCall
  | VectorIndexOutOfRange
  | StringFromNull
  | IntOverflow

datatype outcome = Exit int | Crash fault

subsection \<open>Labels and construction of algorithms\<close>

definition cellPrintLimit :: int where
  "cellPrintLimit = 8"

definition algorithmLabel :: "int \<Rightarrow> string" where
  "algorithmLabel algorithmIndex =
     (if algorithmIndex = 1 then ''recursive (sequential)''
      else if algorithmIndex = 2 then ''recursive (task-based parallel)''
      else if algorithmIndex = 3 then ''top-down: maximum length (sequential)''
      else if algorithmIndex = 4 then ''top-down: single update (sequential)''
      else if algorithmIndex = 5 then ''top-down: single update (parallel)''
      else if algorithmIndex = 6 then ''double drop (sequential)''
      else if algorithmIndex = 7 then ''double drop (parallel)''
      else [])"

definition createMultipleAlgorithm :: "int \<Rightarrow> int \<Rightarrow> algorithm option" where
  "createMultipleAlgorithm algorithmIndex algorithmParameter =
     (if algorithmIndex = 3 then Some TopDownMaxSeqLfp
      else if algorithmIndex = 4 then Some TopDownSingleSeqLfp
      else if algorithmIndex = 5 then Some TopDownSingleOmpLfp
      else None)"

definition createAlgorithm :: "int \<Rightarrow> int \<Rightarrow> algorithm option" where
  "createAlgorithm algorithmIndex algorithmParameter =
     (if algorithmIndex = 1 then Some RecursiveSeqLfp
      else if algorithmIndex = 2 then Some (RecursiveTaskLfp algorithmParameter)
      else if algorithmIndex = 3 then Some TopDownMaxSeqLfp
      else if algorithmIndex = 4 then Some TopDownSingleSeqLfp
      else if algorithmIndex = 5 then Some TopDownSingleOmpLfp
      else if algorithmIndex = 6 then Some DoubleDropSeqLfp
      else if algorithmIndex = 7 then Some DoubleDropOmpLfp
      else None)"

subsection \<open>The usage text\<close>

definition usageLine :: "int \<Rightarrow> string" where
  "usageLine i = '' '' @ show_int i @ ''.  '' @ algorithmLabel i @ endl"

definition printUsage :: "world \<Rightarrow> world" where
  "printUsage w =
     (let w1 = print (''required arguments:'' @ endl
                @ '' 1.  flow direction filename'' @ endl
                @ '' 2.  outlet location filename (containing row and column coordinates, one-based indexing)'' @ endl
                @ '' 3.  algorithm index'' @ endl
                @ '' 4.  output filename'' @ endl
                @ ''(5.) algorithm parameter (task-based recursive: task creation limit, top-down: 1 for all outlets (default: only first outlet))'' @ endl
                @ endl
                @ ''available algorithms:'' @ endl) w
      in foldl (\<lambda>w i. print (usageLine i) w) w1 [1, 2, 3, 4, 5, 6, 7])"

subsection \<open>Reading the outlet file\<close>

text \<open>
  The input stream: the characters not yet read and the fail bit. A stream opened on a
  file that cannot be opened has the fail bit set.
\<close>

record ifstream =
  content :: string
  failed :: bool

definition open_in :: "world \<Rightarrow> string \<Rightarrow> ifstream" where
  "open_in w filename =
     (case files w filename of
        None \<Rightarrow> \<lparr>content = [], failed = True\<rparr>
      | Some text \<Rightarrow> \<lparr>content = text, failed = False\<rparr>)"

text \<open>
  \<^verbatim>\<open>file >> x\<close> for an \<^verbatim>\<open>int x\<close> in the classic locale, base ten: nothing happens on a
  failed stream; otherwise white space is skipped, an optional sign and the longest run of
  digits are consumed. Without a digit the fail bit is set and 0 is stored; a value outside
  the range of \<^verbatim>\<open>int\<close> sets the fail bit and stores the nearest bound.
\<close>

definition extract_int :: "ifstream \<Rightarrow> int \<times> ifstream" where
  "extract_int f =
     (if failed f then (0, f)
      else
        let (neg, t) = take_sign (dropWhile isspace (content f));
            ds = takeWhile isdigit t;
            v = (if neg then - decimal ds else decimal ds);
            f' = \<lparr>content = dropWhile isdigit t, failed = False\<rparr>
        in if ds = [] then (0, f'\<lparr>failed := True\<rparr>)
           else if v < INT_MIN then (INT_MIN, f'\<lparr>failed := True\<rparr>)
           else if INT_MAX < v then (INT_MAX, f'\<lparr>failed := True\<rparr>)
           else (v, f'))"

text \<open>\<^verbatim>\<open>file >> row >> col >> label\<close>: three extractions on the same stream.\<close>

definition extract_triple :: "ifstream \<Rightarrow> (int \<times> int \<times> int) \<times> ifstream" where
  "extract_triple f =
     (let (r, f1) = extract_int f;
          (c, f2) = extract_int f1;
          (l, f3) = extract_int f2
      in ((r, c, l), f3))"

text \<open>
  The loop \<^verbatim>\<open>while (file >> row >> col >> label) outlets.push_back({row, col})\<close>: it ends
  at the first triple that is not read in full, and what was pushed so far stays.
\<close>

function loadOutletLocations_loop :: "ifstream \<Rightarrow> CellLocation list \<Rightarrow> CellLocation list" where
  "loadOutletLocations_loop file outlets =
     (case extract_triple file of
        ((r, c, label), file') \<Rightarrow>
          if failed file' then outlets
          else loadOutletLocations_loop file' (outlets @ [\<lparr>row = r, col = c\<rparr>]))"
  by pat_completeness auto
termination
proof -
  have sign: "length t \<le> length s" if "take_sign s = (neg, t)" for s neg t
    using that by (auto simp: take_sign_def split: list.splits if_splits)
  have one: "\<not> failed f \<and> length (content f') < length (content f)"
    if e: "extract_int f = (v, f')" and ok: "\<not> failed f'" for f v f'
  proof -
    from e ok have nf: "\<not> failed f"
      by (auto simp: extract_int_def)
    obtain neg t where ts: "take_sign (dropWhile isspace (content f)) = (neg, t)"
      by (cases "take_sign (dropWhile isspace (content f))")
    from e ok nf ts have ds: "takeWhile isdigit t \<noteq> []" and c: "content f' = dropWhile isdigit t"
      by (auto simp: extract_int_def Let_def split: if_splits)
    have "length (takeWhile isdigit t) + length (dropWhile isdigit t) = length t"
      by (metis length_append takeWhile_dropWhile_id)
    moreover from ds have "1 \<le> length (takeWhile isdigit t)"
      by (cases "takeWhile isdigit t") simp_all
    moreover have "length t \<le> length (dropWhile isspace (content f))"
      using ts by (rule sign)
    moreover have "length (dropWhile isspace (content f)) \<le> length (content f)"
      by (rule length_dropWhile_le)
    ultimately have "length (dropWhile isdigit t) < length (content f)"
      by linarith
    with nf c show ?thesis
      by simp
  qed
  have three: "length (content f') < length (content f)"
    if e: "extract_triple f = (x, f')" and ok: "\<not> failed f'" for f x f'
  proof -
    obtain r f1 where e1: "extract_int f = (r, f1)" by (cases "extract_int f")
    obtain c f2 where e2: "extract_int f1 = (c, f2)" by (cases "extract_int f1")
    obtain l f3 where e3: "extract_int f2 = (l, f3)" by (cases "extract_int f2")
    from e e1 e2 e3 have f3: "f' = f3"
      by (simp add: extract_triple_def)
    with ok e3 have s3: "\<not> failed f2 \<and> length (content f3) < length (content f2)"
      using one by blast
    with e2 have s2: "\<not> failed f1 \<and> length (content f2) < length (content f1)"
      using one by blast
    with e1 have s1: "length (content f1) < length (content f)"
      using one by blast
    from s1 s2 s3 f3 show ?thesis by simp
  qed
  show ?thesis
    by (relation "measure (\<lambda>(file, outlets). length (content file))")
       (auto dest: three [OF sym])
qed

declare loadOutletLocations_loop.simps [simp del]

definition loadOutletLocations :: "world \<Rightarrow> string \<Rightarrow> CellLocation list" where
  "loadOutletLocations w filename = loadOutletLocations_loop (open_in w filename) []"

subsection \<open>Printing cells\<close>

definition cellLine :: "CellLocation \<Rightarrow> string" where
  "cellLine c = ''- row '' @ show_int (row c) @ '', column '' @ show_int (col c) @ endl"

text \<open>
  \<^verbatim>\<open>cellsTotal\<close> is an \<^verbatim>\<open>int\<close> initialised from \<^verbatim>\<open>cells.size()\<close>; the loop prints the
  first \<^verbatim>\<open>min(cellsTotal, cellPrintLimit)\<close> cells.
\<close>

definition printCells :: "string \<Rightarrow> CellLocation list \<Rightarrow> world \<Rightarrow> world" where
  "printCells label cells w =
     (let cellsTotal = to_int32 (int (length cells));
          cellsToPrint = min cellsTotal cellPrintLimit;
          w1 = print (''number of '' @ label @ '' locations: '' @ show_int cellsTotal @ endl) w;
          w2 = foldl (\<lambda>w c. print (cellLine c) w) w1 (take (nat cellsToPrint) cells)
      in if cellsToPrint < cellsTotal then print (''- ...'' @ endl) w2 else w2)"

subsection \<open>The measurement\<close>

definition csvHeader :: string where
  "csvHeader = ''row,column'' @ endl"

definition csvLine :: "CellLocation \<Rightarrow> string" where
  "csvLine c = show_int (row c) @ '','' @ show_int (col c) @ endl"

text \<open>
  The output of the multi-outlet branch: the header and the loop
  \<^verbatim>\<open>for (int i = 0; i < sourceLocations.size(); ++i)\<close>. The \<^verbatim>\<open>int\<close> counter reaches every
  index of a vector of at most \<open>INT_MAX\<close> elements; on a longer one \<^verbatim>\<open>++i\<close> overflows
  after the line of index \<open>INT_MAX\<close>.
\<close>

definition writeSources :: "string \<Rightarrow> CellLocation list \<Rightarrow> world \<Rightarrow> fault option \<times> world" where
  "writeSources outputFilename sourceLocations w =
     (if int (length sourceLocations) \<le> INT_MAX
      then (None, write_file outputFilename (csvHeader @ concat (map csvLine sourceLocations)) w)
      else (Some IntOverflow,
            write_file outputFilename
              (csvHeader @ concat (map csvLine (take (nat INT_MAX + 1) sourceLocations))) w))"

text \<open>
  \<^verbatim>\<open>executeMeasurement\<close>. The result is \<open>None\<close> when the function returns and the fault
  otherwise, with the world as it is before the faulting statement.
\<close>

definition executeMeasurement ::
  "collaborators \<Rightarrow> string \<Rightarrow> string \<Rightarrow> int \<Rightarrow> string \<Rightarrow> int \<Rightarrow> world \<Rightarrow> fault option \<times> world" where
  "executeMeasurement e directionFilename outletFilename algorithmIndex outputFilename algorithmParameter w =
     (let w1 = print (''loading flow direction file ('' @ directionFilename @ '')...'' @ endl) w;
          directionMatrix = loadGdal e directionFilename;
          w2 = print (''flow direction data: '' @ show_int (height directionMatrix) @ '' rows, ''
                      @ show_int (width directionMatrix) @ '' columns'' @ endl) w1;
          w3 = print (''loading outlet file ('' @ outletFilename @ '')...'' @ endl) w2;
          outletLocations = loadOutletLocations w3 outletFilename;
          w4 = print (''executing '' @ algorithmLabel algorithmIndex @ '' algorithm...'' @ endl) w3
      in if algorithmParameter \<noteq> 0 \<and> algorithmIndex \<ge> 3 \<and> algorithmIndex \<le> 5 then
           (let w5 = printCells ''outlet'' outletLocations w4 in
            case createMultipleAlgorithm algorithmIndex algorithmParameter of
              None \<Rightarrow> (Some NullPointerCall, w5)
            | Some algorithm \<Rightarrow>
                let sourceLocations = executeMultiple e algorithm directionMatrix outletLocations;
                    w6 = record_call (ExecuteMultiple algorithm directionMatrix outletLocations) w5;
                    w7 = printCells ''source'' sourceLocations w6;
                    w8 = print (''execution time (ms): '' @ show_int (elapsedMs e) @ endl) w7
                in writeSources outputFilename sourceLocations w8)
         else
           (case outletLocations of
              [] \<Rightarrow> (Some VectorIndexOutOfRange, w4)
            | outlet0 # _ \<Rightarrow>
                let w5 = print (''outlet location: row '' @ show_int (row outlet0) @ '', column ''
                                @ show_int (col outlet0) @ endl) w4 in
                (case createAlgorithm algorithmIndex algorithmParameter of
                   None \<Rightarrow> (Some NullPointerCall, w5)
                 | Some algorithm \<Rightarrow>
                     let sourceLocation = execute e algorithm directionMatrix outlet0;
                         w6 = record_call (Execute algorithm directionMatrix outlet0) w5;
                         w7 = print (''source location: row '' @ show_int (row sourceLocation)
                                     @ '', column '' @ show_int (col sourceLocation) @ endl) w6;
                         w8 = print (''execution time (ms): '' @ show_int (elapsedMs e) @ endl) w7
                     in (None, write_file outputFilename (csvHeader @ csvLine sourceLocation) w8))))"

subsection \<open>The entry point\<close>

text \<open>
  \<open>argv\<close> is the list of the \<open>argc\<close> arguments, the program name first; the entry
  \<^verbatim>\<open>argv[argc]\<close> after them is the null pointer.
\<close>

definition arg :: "string list \<Rightarrow> nat \<Rightarrow> string option" where
  "arg argv i = (if i < length argv then Some (argv ! i) else None)"

text \<open>
  \<^verbatim>\<open>main\<close> has no \<^verbatim>\<open>return\<close> statement: when control reaches its end, the exit code is 0.
\<close>

definition main :: "collaborators \<Rightarrow> string list \<Rightarrow> world \<Rightarrow> outcome \<times> world" where
  "main e argv w =
     (let argc = int (length argv) in
      if argc < 4 then (Exit 0, printUsage w)
      else
        let directionFilename = argv ! 1;
            outletFilename = argv ! 2;
            algorithmIndex = atoi (argv ! 3)
        in case arg argv 4 of
             None \<Rightarrow> (Crash StringFromNull, w)
           | Some outputFilename \<Rightarrow>
               let algorithmParameter = (if argc > 5 then atoi (argv ! 5) else 0) in
               (case executeMeasurement e directionFilename outletFilename algorithmIndex
                       outputFilename algorithmParameter w of
                  (None, w') \<Rightarrow> (Exit 0, w')
                | (Some f, w') \<Rightarrow> (Crash f, w')))"

subsection \<open>The text of a well-formed outlet file\<close>

text \<open>
  A numeral is an optional sign followed by at least one decimal digit. A well-formed
  triple is three numerals for \<^verbatim>\<open>int\<close> values, with white space before the first
  (possibly none) and non-empty white space between them. The text of a file is the
  text of its triples, each but the first starting with white space, followed by the
  rest of the file.
\<close>

definition is_numeral :: "string \<Rightarrow> bool" where
  "is_numeral t \<longleftrightarrow>
     (case t of
        [] \<Rightarrow> False
      | c # ds \<Rightarrow> if c = CHR ''-'' \<or> c = CHR ''+'' then ds \<noteq> [] \<and> list_all isdigit ds
                 else list_all isdigit t)"

definition numeral_value :: "string \<Rightarrow> int" where
  "numeral_value t =
     (case t of
        [] \<Rightarrow> 0
      | c # ds \<Rightarrow> if c = CHR ''-'' then - decimal ds else if c = CHR ''+'' then decimal ds
                 else decimal t)"

definition delimited :: "string \<Rightarrow> bool" where
  "delimited s \<longleftrightarrow> (case s of [] \<Rightarrow> True | c # _ \<Rightarrow> \<not> isdigit c)"

record triple_text =
  lead :: string
  row_text :: string
  gap1 :: string
  col_text :: string
  gap2 :: string
  label_text :: string

definition text_of :: "triple_text \<Rightarrow> string" where
  "text_of t = lead t @ row_text t @ gap1 t @ col_text t @ gap2 t @ label_text t"

definition well_formed :: "triple_text \<Rightarrow> bool" where
  "well_formed t \<longleftrightarrow>
     list_all isspace (lead t)
     \<and> is_numeral (row_text t) \<and> representable (numeral_value (row_text t))
     \<and> gap1 t \<noteq> [] \<and> list_all isspace (gap1 t)
     \<and> is_numeral (col_text t) \<and> representable (numeral_value (col_text t))
     \<and> gap2 t \<noteq> [] \<and> list_all isspace (gap2 t)
     \<and> is_numeral (label_text t) \<and> representable (numeral_value (label_text t))"

fun separated :: "triple_text list \<Rightarrow> bool" where
  "separated [] = True"
| "separated (t # ts) = list_all (\<lambda>u. lead u \<noteq> []) ts"

definition cell_of :: "triple_text \<Rightarrow> CellLocation" where
  "cell_of t = \<lparr>row = numeral_value (row_text t), col = numeral_value (col_text t)\<rparr>"

definition file_text :: "triple_text list \<Rightarrow> string \<Rightarrow> string" where
  "file_text ts rest = concat (map text_of ts) @ rest"

subsection \<open>Lines of a text\<close>

text \<open>
  The lines of a text: the runs of characters between line ends, each line end closing
  a line.
\<close>

definition lines_of :: "string \<Rightarrow> string list" where
  "lines_of text =
     foldr (\<lambda>c ls. if c = CHR ''\<newline>'' then [] # ls
                    else (case ls of [] \<Rightarrow> [[c]] | l # ls' \<Rightarrow> (c # l) # ls')) text []"

subsection \<open>Collaborators and worlds for concrete runs\<close>

text \<open>
  Modelled from the spec: the loader and the algorithms are not among the sources. The
  stand-in used where a run is evaluated on a concrete input follows scenario S4 of the
  spec (a 3 by 3 raster of zeros, where the source of an outlet is the outlet itself):
  the loader yields that raster, every location is its own source, and the clock measures
  no time. The world holds one file, \<^verbatim>\<open>outlets.txt\<close>, with the given text, and
  has no directory: a name with a slash cannot be opened for writing.
\<close>

definition sample_matrix :: FlowDirectionMatrix where
  "sample_matrix = \<lparr>height = 3, width = 3, codes = [0, 0, 0, 0, 0, 0, 0, 0, 0]\<rparr>"

definition sample_collaborators :: collaborators where
  "sample_collaborators =
     \<lparr>loadGdal = (\<lambda>_. sample_matrix), execute = (\<lambda>_ _ c. c),
      executeMultiple = (\<lambda>_ _ cs. cs), elapsedMs = 0\<rparr>"

definition sample_world :: "string \<Rightarrow> world" where
  "sample_world text =
     \<lparr>stdout = [], files = [''outlets.txt'' \<mapsto> text],
      writable = (\<lambda>name. CHR ''/'' \<notin> set name), calls = []\<rparr>"

subsection \<open>The contract of the multi-outlet algorithms\<close>

text \<open>
  Modelled from the spec: the code of \<^verbatim>\<open>executeMultiple\<close> is not among the sources. The
  spec gives its result as "a sequence of K source locations in the same order as input
  outlets" (4.9), the i-th of them being the single-outlet result on the i-th outlet
  (8, property 5).
\<close>

definition multi_outlet_contract :: "collaborators \<Rightarrow> bool" where
  "multi_outlet_contract e \<longleftrightarrow>
     (\<forall>a m outlets. executeMultiple e a m outlets = map (execute e a m) outlets)"

section \<open>Properties\<close>

subsection \<open>What the printing operations leave alone\<close>

lemma print_fields [simp]:
  "stdout (print s w) = stdout w @ s"
  "files (print s w) = files w"
  "writable (print s w) = writable w"
  "calls (print s w) = calls w"
  by (simp_all add: print_def)

lemma record_call_fields [simp]:
  "stdout (record_call c w) = stdout w"
  "files (record_call c w) = files w"
  "writable (record_call c w) = writable w"
  "calls (record_call c w) = calls w @ [c]"
  by (simp_all add: record_call_def)

lemma write_file_fields [simp]:
  "stdout (write_file n t w) = stdout w"
  "files (write_file n t w) = (if writable w n then (files w)(n \<mapsto> t) else files w)"
  "writable (write_file n t w) = writable w"
  "calls (write_file n t w) = calls w"
  by (simp_all add: write_file_def)

lemma foldl_print_fields [simp]:
  "files (foldl (\<lambda>w x. print (g x) w) w xs) = files w"
  "writable (foldl (\<lambda>w x. print (g x) w) w xs) = writable w"
  "calls (foldl (\<lambda>w x. print (g x) w) w xs) = calls w"
  by (induction xs arbitrary: w) simp_all

lemma printCells_fields [simp]:
  "files (printCells label cells w) = files w"
  "writable (printCells label cells w) = writable w"
  "calls (printCells label cells w) = calls w"
  by (simp_all add: printCells_def Let_def)

lemma printUsage_fields [simp]:
  "files (printUsage w) = files w"
  "writable (printUsage w) = writable w"
  "calls (printUsage w) = calls w"
  by (simp_all add: printUsage_def Let_def)

lemma loadOutletLocations_files:
  "files w' = files w \<Longrightarrow> loadOutletLocations w' name = loadOutletLocations w name"
  by (simp add: loadOutletLocations_def open_in_def)

lemma loadOutletLocations_print [simp]:
  "loadOutletLocations (print s w) name = loadOutletLocations w name"
  by (rule loadOutletLocations_files) simp

lemma createMultipleAlgorithm_Some:
  "3 \<le> i \<Longrightarrow> i \<le> 5 \<Longrightarrow>
   createMultipleAlgorithm i p =
     Some (if i = 3 then TopDownMaxSeqLfp else if i = 4 then TopDownSingleSeqLfp else TopDownSingleOmpLfp)"
  by (auto simp: createMultipleAlgorithm_def)

lemma createAlgorithm_None: "createAlgorithm i p = None \<longleftrightarrow> i < 1 \<or> 7 < i"
  by (auto simp: createAlgorithm_def)

lemma writeSources_fields [simp]:
  "stdout (snd (writeSources n s w)) = stdout w"
  "calls (snd (writeSources n s w)) = calls w"
  "fst (writeSources n s w) = (if int (length s) \<le> INT_MAX then None else Some IntOverflow)"
  by (simp_all add: writeSources_def)

lemma writeSources_files:
  "int (length s) \<le> INT_MAX \<Longrightarrow>
   files (snd (writeSources n s w)) =
     (if writable w n then (files w)(n \<mapsto> csvHeader @ concat (map csvLine s)) else files w)"
  by (simp add: writeSources_def)

text \<open>The multi-outlet branch.\<close>

lemma executeMeasurement_multi:
  assumes "p \<noteq> 0" "3 \<le> i" "i \<le> 5" "createMultipleAlgorithm i p = Some a"
  shows "fst (executeMeasurement e dn on i out p w) =
           (if int (length (executeMultiple e a (loadGdal e dn) (loadOutletLocations w on))) \<le> INT_MAX
            then None else Some IntOverflow)"
    and "calls (snd (executeMeasurement e dn on i out p w)) =
           calls w @ [ExecuteMultiple a (loadGdal e dn) (loadOutletLocations w on)]"
    and "int (length (executeMultiple e a (loadGdal e dn) (loadOutletLocations w on))) \<le> INT_MAX \<Longrightarrow>
         files (snd (executeMeasurement e dn on i out p w)) =
           (if writable w out
            then (files w)(out \<mapsto> csvHeader @
              concat (map csvLine (executeMultiple e a (loadGdal e dn) (loadOutletLocations w on))))
            else files w)"
  using assms by (simp_all add: executeMeasurement_def Let_def writeSources_files)

text \<open>The single-outlet branch.\<close>

lemma single_branch:
  "\<not> (p \<noteq> (0::int) \<and> 3 \<le> (i::int) \<and> i \<le> 5) \<Longrightarrow> (p \<noteq> 0 \<and> 3 \<le> i \<and> i \<le> 5) = False"
  by blast

lemma executeMeasurement_single_empty:
  assumes "\<not> (p \<noteq> 0 \<and> 3 \<le> i \<and> i \<le> 5)" "loadOutletLocations w on = []"
  shows "fst (executeMeasurement e dn on i out p w) = Some VectorIndexOutOfRange"
    and "calls (snd (executeMeasurement e dn on i out p w)) = calls w"
    and "files (snd (executeMeasurement e dn on i out p w)) = files w"
  using assms(2) by (simp_all add: executeMeasurement_def Let_def single_branch [OF assms(1)])

lemma executeMeasurement_single_null:
  assumes "\<not> (p \<noteq> 0 \<and> 3 \<le> i \<and> i \<le> 5)" "loadOutletLocations w on = o0 # os"
    "createAlgorithm i p = None"
  shows "fst (executeMeasurement e dn on i out p w) = Some NullPointerCall"
    and "calls (snd (executeMeasurement e dn on i out p w)) = calls w"
    and "files (snd (executeMeasurement e dn on i out p w)) = files w"
  using assms(2,3) by (simp_all add: executeMeasurement_def Let_def single_branch [OF assms(1)])

lemma executeMeasurement_single_run:
  assumes "\<not> (p \<noteq> 0 \<and> 3 \<le> i \<and> i \<le> 5)" "loadOutletLocations w on = o0 # os"
    "createAlgorithm i p = Some a"
  shows "fst (executeMeasurement e dn on i out p w) = None"
    and "calls (snd (executeMeasurement e dn on i out p w)) = calls w @ [Execute a (loadGdal e dn) o0]"
    and "files (snd (executeMeasurement e dn on i out p w)) =
           (if writable w out
            then (files w)(out \<mapsto> csvHeader @ csvLine (execute e a (loadGdal e dn) o0))
            else files w)"
  using assms(2,3) by (simp_all add: executeMeasurement_def Let_def single_branch [OF assms(1)])


subsection \<open>Reading well-formed text\<close>

lemma isdigit_not_isspace: "isdigit c \<Longrightarrow> \<not> isspace c"
  by (auto simp: isdigit_def isspace_def)

lemma sign_not_isspace: "\<not> isspace CHR ''-''" "\<not> isspace CHR ''+''"
  by (simp_all add: isspace_def)

lemma dropWhile_isspace_lead:
  assumes "list_all isspace ws" and "u = [] \<or> \<not> isspace (hd u)"
  shows "dropWhile isspace (ws @ u) = u"
proof -
  from assms(1) have "dropWhile isspace (ws @ u) = dropWhile isspace u"
    by (simp add: list_all_iff)
  also from assms(2) have "dropWhile isspace u = u"
    by (cases u) auto
  finally show ?thesis .
qed

lemma digits_then_delimited:
  assumes "list_all isdigit ds" and "delimited rest"
  shows "takeWhile isdigit (ds @ rest) = ds" and "dropWhile isdigit (ds @ rest) = rest"
proof -
  from assms(2) have r: "takeWhile isdigit rest = []" "dropWhile isdigit rest = rest"
    by (cases rest; simp add: delimited_def)+
  from assms(1) show "takeWhile isdigit (ds @ rest) = ds"
    by (simp add: list_all_iff r)
  from assms(1) show "dropWhile isdigit (ds @ rest) = rest"
    by (simp add: list_all_iff r)
qed

text \<open>A numeral splits into its sign and a non-empty run of digits.\<close>

lemma numeral_split:
  assumes "is_numeral t"
  obtains neg ds where "take_sign (t @ rest) = (neg, ds @ rest)" "ds \<noteq> []" "list_all isdigit ds"
    "numeral_value t = (if neg then - decimal ds else decimal ds)" "\<not> isspace (hd (t @ rest))"
proof (cases t)
  case Nil
  with assms show ?thesis by (simp add: is_numeral_def)
next
  case (Cons c cs)
  show ?thesis
  proof (cases "c = CHR ''-'' \<or> c = CHR ''+''")
    case True
    with Cons assms have "take_sign (t @ rest) = (c = CHR ''-'', cs @ rest)" "cs \<noteq> []" "list_all isdigit cs"
      "numeral_value t = (if c = CHR ''-'' then - decimal cs else decimal cs)" "\<not> isspace (hd (t @ rest))"
      by (auto simp: is_numeral_def take_sign_def numeral_value_def sign_not_isspace)
    then show ?thesis by (rule that)
  next
    case False
    with Cons assms have d: "list_all isdigit t"
      by (simp add: is_numeral_def)
    with Cons have "isdigit c" by simp
    with Cons False d have "take_sign (t @ rest) = (False, t @ rest)" "t \<noteq> []" "list_all isdigit t"
      "numeral_value t = (if False then - decimal t else decimal t)" "\<not> isspace (hd (t @ rest))"
      by (auto simp: take_sign_def numeral_value_def dest: isdigit_not_isspace)
    then show ?thesis by (rule that)
  qed
qed

lemma extract_int_numeral:
  assumes nf: "\<not> failed f" and c: "content f = ws @ t @ rest"
    and ws: "list_all isspace ws" and t: "is_numeral t"
    and v: "representable (numeral_value t)" and d: "delimited rest"
  shows "extract_int f = (numeral_value t, \<lparr>content = rest, failed = False\<rparr>)"
proof -
  from t obtain neg ds where s: "take_sign (t @ rest) = (neg, ds @ rest)" "ds \<noteq> []"
    "list_all isdigit ds" "numeral_value t = (if neg then - decimal ds else decimal ds)"
    "\<not> isspace (hd (t @ rest))"
    by (rule numeral_split)
  from ws s(5) have dw: "dropWhile isspace (content f) = t @ rest"
    unfolding c by (intro dropWhile_isspace_lead) simp_all
  from s(3) d have td: "takeWhile isdigit (ds @ rest) = ds" "dropWhile isdigit (ds @ rest) = rest"
    by (rule digits_then_delimited)+
  from v s(4) have r: "\<not> (if neg then - decimal ds else decimal ds) < INT_MIN"
    "\<not> INT_MAX < (if neg then - decimal ds else decimal ds)"
    by (simp_all add: representable_def)
  show ?thesis
    using nf s(2) r by (cases neg) (simp_all add: extract_int_def dw s(1) td s(4) Let_def)
qed

lemma delimited_gap: "g \<noteq> [] \<Longrightarrow> list_all isspace g \<Longrightarrow> delimited (g @ u)"
  by (cases g) (auto simp: delimited_def dest: isdigit_not_isspace)

lemma extract_triple_well_formed:
  assumes nf: "\<not> failed f" and c: "content f = text_of t @ rest"
    and t: "well_formed t" and d: "delimited rest"
  shows "extract_triple f = ((numeral_value (row_text t), numeral_value (col_text t),
           numeral_value (label_text t)), \<lparr>content = rest, failed = False\<rparr>)"
proof -
  let ?f1 = "\<lparr>content = gap1 t @ col_text t @ gap2 t @ label_text t @ rest, failed = False\<rparr>"
  let ?f2 = "\<lparr>content = gap2 t @ label_text t @ rest, failed = False\<rparr>"
  from t have d1: "delimited (gap1 t @ col_text t @ gap2 t @ label_text t @ rest)"
    and d2: "delimited (gap2 t @ label_text t @ rest)"
    by (simp_all add: well_formed_def delimited_gap)
  have e1: "extract_int f = (numeral_value (row_text t), ?f1)"
    using nf _ _ _ _ d1
  proof (rule extract_int_numeral)
    show "content f = lead t @ row_text t @ gap1 t @ col_text t @ gap2 t @ label_text t @ rest"
      by (simp add: c text_of_def)
  qed (use t in \<open>simp_all add: well_formed_def\<close>)
  have e2: "extract_int ?f1 = (numeral_value (col_text t), ?f2)"
    using _ _ _ _ _ d2
  proof (rule extract_int_numeral)
    show "content ?f1 = gap1 t @ col_text t @ gap2 t @ label_text t @ rest"
      by simp
  qed (use t in \<open>simp_all add: well_formed_def\<close>)
  have e3: "extract_int ?f2 = (numeral_value (label_text t), \<lparr>content = rest, failed = False\<rparr>)"
    using _ _ _ _ _ d
  proof (rule extract_int_numeral)
    show "content ?f2 = gap2 t @ label_text t @ rest"
      by simp
  qed (use t in \<open>simp_all add: well_formed_def\<close>)
  show ?thesis
    by (simp add: extract_triple_def e1 e2 e3)
qed

lemma delimited_following:
  assumes "list_all (\<lambda>u. lead u \<noteq> []) ts" "list_all well_formed ts" "delimited rest"
  shows "delimited (concat (map text_of ts) @ rest)"
proof (cases ts)
  case Nil
  with assms show ?thesis by simp
next
  case (Cons u us)
  with assms have "lead u \<noteq> []" "list_all isspace (lead u)"
    by (simp_all add: well_formed_def)
  then have "delimited (lead u @ (row_text u @ gap1 u @ col_text u @ gap2 u @ label_text u
               @ concat (map text_of us) @ rest))"
    by (rule delimited_gap)
  with Cons show ?thesis by (simp add: text_of_def)
qed

lemma loop_well_formed:
  assumes "list_all well_formed ts" "separated ts" "delimited rest"
    "\<not> failed f" "content f = file_text ts rest"
  shows "loadOutletLocations_loop f acc =
           loadOutletLocations_loop \<lparr>content = rest, failed = False\<rparr> (acc @ map cell_of ts)"
  using assms
proof (induction ts arbitrary: f acc)
  case Nil
  then have "f = \<lparr>content = rest, failed = False\<rparr>"
    by (cases f) (simp add: file_text_def)
  then show ?case by simp
next
  case (Cons t ts)
  let ?f' = "\<lparr>content = file_text ts rest, failed = False\<rparr>"
  from Cons.prems have ne: "list_all (\<lambda>u. lead u \<noteq> []) ts" and wf: "list_all well_formed ts"
    and wt: "well_formed t"
    by simp_all
  from ne have sep: "separated ts"
    by (cases ts) simp_all
  from ne wf Cons.prems(3) have d: "delimited (file_text ts rest)"
    unfolding file_text_def by (rule delimited_following)
  from Cons.prems(5) have c: "content f = text_of t @ file_text ts rest"
    by (simp add: file_text_def)
  from Cons.prems(4) c wt d
  have e: "extract_triple f = ((numeral_value (row_text t), numeral_value (col_text t),
             numeral_value (label_text t)), ?f')"
    by (rule extract_triple_well_formed)
  have "loadOutletLocations_loop f acc = loadOutletLocations_loop ?f' (acc @ [cell_of t])"
    by (subst loadOutletLocations_loop.simps) (simp add: e cell_of_def)
  also have "\<dots> = loadOutletLocations_loop \<lparr>content = rest, failed = False\<rparr>
                    ((acc @ [cell_of t]) @ map cell_of ts)"
    using wf sep Cons.prems(3) by (intro Cons.IH) simp_all
  finally show ?case by simp
qed

lemma loop_stops:
  "failed (snd (extract_triple f)) \<Longrightarrow> loadOutletLocations_loop f acc = acc"
  by (subst loadOutletLocations_loop.simps) (auto split: prod.splits)

lemma extract_int_blank:
  assumes "list_all isspace s"
  shows "failed (snd (extract_int \<lparr>content = s, failed = False\<rparr>))"
proof -
  from assms have d: "dropWhile isspace s = []"
    by (simp add: list_all_iff)
  show ?thesis
    by (simp add: extract_int_def take_sign_def d)
qed

lemma extract_int_stays_failed: "failed f \<Longrightarrow> failed (snd (extract_int f))"
  by (simp add: extract_int_def)

lemma extract_triple_fails_first:
  "failed (snd (extract_int f)) \<Longrightarrow> failed (snd (extract_triple f))"
  by (simp add: extract_triple_def extract_int_stays_failed split: prod.splits)
     (metis extract_int_stays_failed snd_conv)

lemma loadOutletLocations_prefix:
  assumes "list_all well_formed ts" "separated ts" "ts = [] \<or> delimited rest"
    "failed (snd (extract_triple \<lparr>content = rest, failed = False\<rparr>))"
    "files w name = Some (file_text ts rest)"
  shows "loadOutletLocations w name = map cell_of ts"
proof (cases ts)
  case Nil
  with assms(4,5) show ?thesis
    by (simp add: loadOutletLocations_def open_in_def file_text_def loop_stops)
next
  case Cons
  with assms(3) have d: "delimited rest" by simp
  have "loadOutletLocations w name =
          loadOutletLocations_loop \<lparr>content = file_text ts rest, failed = False\<rparr> []"
    by (simp add: loadOutletLocations_def open_in_def assms(5))
  also have "\<dots> = loadOutletLocations_loop \<lparr>content = rest, failed = False\<rparr> ([] @ map cell_of ts)"
    using assms(1,2) d by (rule loop_well_formed) simp_all
  also have "\<dots> = map cell_of ts"
    using assms(4) by (simp add: loop_stops)
  finally show ?thesis .
qed


subsection \<open>The entry point, case by case\<close>

lemma main_usage: "length argv < 4 \<Longrightarrow> main e argv w = (Exit 0, printUsage w)"
  by (simp add: main_def)

lemma main_null: "length argv = 4 \<Longrightarrow> main e argv w = (Crash StringFromNull, w)"
  by (simp add: main_def arg_def Let_def)

lemma main_run:
  "4 < length argv \<Longrightarrow>
   main e argv w =
     (case executeMeasurement e (argv ! 1) (argv ! 2) (atoi (argv ! 3)) (argv ! 4)
             (if 5 < length argv then atoi (argv ! 5) else 0) w of
        (None, w') \<Rightarrow> (Exit 0, w')
      | (Some f, w') \<Rightarrow> (Crash f, w'))"
  by (simp add: main_def arg_def Let_def)

lemma main_run_fst:
  "4 < length argv \<Longrightarrow>
   fst (main e argv w) =
     (case fst (executeMeasurement e (argv ! 1) (argv ! 2) (atoi (argv ! 3)) (argv ! 4)
             (if 5 < length argv then atoi (argv ! 5) else 0) w) of
        None \<Rightarrow> Exit 0
      | Some f \<Rightarrow> Crash f)"
  by (simp add: main_run split: prod.splits option.splits)

lemma main_run_snd:
  "4 < length argv \<Longrightarrow>
   snd (main e argv w) =
     snd (executeMeasurement e (argv ! 1) (argv ! 2) (atoi (argv ! 3)) (argv ! 4)
             (if 5 < length argv then atoi (argv ! 5) else 0) w)"
  by (simp add: main_run split: prod.splits option.splits)

lemma executeMeasurement_faults:
  "fst (executeMeasurement e dn on i out p w) \<in>
     {None, Some NullPointerCall, Some VectorIndexOutOfRange, Some IntOverflow}"
proof (cases "p \<noteq> 0 \<and> 3 \<le> i \<and> i \<le> 5")
  case True
  then obtain a where "createMultipleAlgorithm i p = Some a"
    by (auto simp: createMultipleAlgorithm_Some)
  with True show ?thesis
    by (simp add: executeMeasurement_multi(1))
next
  case False
  show ?thesis
  proof (cases "loadOutletLocations w on")
    case Nil
    with False show ?thesis
      by (simp add: executeMeasurement_single_empty(1))
  next
    case (Cons o0 os)
    with False show ?thesis
      by (cases "createAlgorithm i p")
         (simp_all add: executeMeasurement_single_null(1) executeMeasurement_single_run(1))
  qed
qed

subsection \<open>Lines of the result file\<close>

lemma lines_of_line:
  "CHR ''\<newline>'' \<notin> set l \<Longrightarrow> lines_of (l @ CHR ''\<newline>'' # rest) = l # lines_of rest"
  by (induction l) (auto simp: lines_of_def)

lemma digit_no_newline: "k < 10 \<Longrightarrow> ''0123456789'' ! k \<noteq> CHR ''\<newline>''"
proof -
  assume "k < 10"
  then have "''0123456789'' ! k \<in> set ''0123456789''"
    by (intro nth_mem) simp
  then show ?thesis by auto
qed

lemma show_nat_no_newline: "CHR ''\<newline>'' \<notin> set (show_nat n)"
proof (induction n rule: show_nat.induct)
  case (1 n)
  show ?case
  proof (cases "n < 10")
    case True
    then show ?thesis
      using digit_no_newline [of n] by (subst show_nat.simps) auto
  next
    case False
    moreover have "n mod 10 < 10" by simp
    ultimately show ?thesis
      using 1 digit_no_newline [of "n mod 10"] by (subst show_nat.simps) auto
  qed
qed

lemma show_int_no_newline: "CHR ''\<newline>'' \<notin> set (show_int i)"
  by (simp add: show_int_def show_nat_no_newline)

lemma lines_of_csvLines:
  "lines_of (concat (map csvLine sources))
     = map (\<lambda>c. show_int (row c) @ '','' @ show_int (col c)) sources"
proof (induction sources)
  case Nil
  show ?case by (simp add: lines_of_def)
next
  case (Cons c cs)
  have "lines_of (concat (map csvLine (c # cs)))
          = lines_of ((show_int (row c) @ '','' @ show_int (col c)) @ CHR ''\<newline>'' # concat (map csvLine cs))"
    by (simp add: csvLine_def endl_def)
  also have "\<dots> = (show_int (row c) @ '','' @ show_int (col c)) # lines_of (concat (map csvLine cs))"
    by (rule lines_of_line) (simp add: show_int_no_newline)
  finally show ?case by (simp add: Cons.IH)
qed

lemma lines_of_csv:
  "lines_of (csvHeader @ concat (map csvLine sources))
     = ''row,column'' # map (\<lambda>c. show_int (row c) @ '','' @ show_int (col c)) sources"
proof -
  have "lines_of (csvHeader @ concat (map csvLine sources))
          = lines_of (''row,column'' @ CHR ''\<newline>'' # concat (map csvLine sources))"
    by (simp add: csvHeader_def endl_def)
  also have "\<dots> = ''row,column'' # lines_of (concat (map csvLine sources))"
    by (rule lines_of_line) simp
  finally show ?thesis by (simp add: lines_of_csvLines)
qed

subsection \<open>What the usage branch prints\<close>

lemma show_int_digit:
  assumes "0 \<le> i" "i < 10"
  shows "show_int i = [''0123456789'' ! nat i]"
proof -
  from assms have "nat i < 10" by simp
  then have "show_nat (nat i) = [''0123456789'' ! nat i]"
    by (subst show_nat.simps) simp
  with assms show ?thesis
    by (simp add: show_int_def)
qed

lemma printUsage_stdout:
  "stdout (printUsage w) = stdout w @
     ''required arguments:\<newline> 1.  flow direction filename\<newline> 2.  outlet location filename (containing row and column coordinates, one-based indexing)\<newline> 3.  algorithm index\<newline> 4.  output filename\<newline>(5.) algorithm parameter (task-based recursive: task creation limit, top-down: 1 for all outlets (default: only first outlet))\<newline>\<newline>available algorithms:\<newline> 1.  recursive (sequential)\<newline> 2.  recursive (task-based parallel)\<newline> 3.  top-down: maximum length (sequential)\<newline> 4.  top-down: single update (sequential)\<newline> 5.  top-down: single update (parallel)\<newline> 6.  double drop (sequential)\<newline> 7.  double drop (parallel)\<newline>''"
  by (simp add: printUsage_def Let_def usageLine_def algorithmLabel_def endl_def show_int_digit)

section \<open>The claims\<close>

text \<open>
  C1. When the parameter is non-zero and the index is 3, 4 or 5, the multi-outlet
  algorithm of that index is created and its \<^verbatim>\<open>executeMultiple\<close> is the one call made,
  on the whole outlet list. Otherwise the single-outlet branch is taken: the only call
  that can be made is \<^verbatim>\<open>execute\<close> of the algorithm of that index on the first outlet of
  the list, and it is made whenever the list is not empty and the index is one of 1..7.
  The constructor of algorithm 2 receives the parameter; those of the other indices do
  not. \<^verbatim>\<open>main\<close> hands the index \<^verbatim>\<open>atoi(argv[3])\<close> to the measurement, with the parameter
  \<^verbatim>\<open>atoi(argv[5])\<close> when there is a fifth positional argument and 0 when there are four.
\<close>

theorem executeMeasurement_dispatch:
  "(p \<noteq> 0 \<and> 3 \<le> i \<and> i \<le> 5 \<longrightarrow>
      createMultipleAlgorithm i p
        = Some (if i = 3 then TopDownMaxSeqLfp else if i = 4 then TopDownSingleSeqLfp
                else TopDownSingleOmpLfp)
      \<and> calls (snd (executeMeasurement e dir outl i out p w))
          = calls w @
              [ExecuteMultiple
                 (if i = 3 then TopDownMaxSeqLfp else if i = 4 then TopDownSingleSeqLfp
                  else TopDownSingleOmpLfp)
                 (loadGdal e dir) (loadOutletLocations w outl)])
   \<and> (\<not> (p \<noteq> 0 \<and> 3 \<le> i \<and> i \<le> 5) \<longrightarrow>
        calls (snd (executeMeasurement e dir outl i out p w))
          = calls w @
              (case loadOutletLocations w outl of
                 [] \<Rightarrow> []
               | outlet0 # _ \<Rightarrow>
                   (case createAlgorithm i p of
                      None \<Rightarrow> []
                    | Some a \<Rightarrow> [Execute a (loadGdal e dir) outlet0])))
   \<and> (1 \<le> i \<and> i \<le> 7 \<longrightarrow> createAlgorithm i p \<noteq> None)
   \<and> createAlgorithm 1 p = Some RecursiveSeqLfp
   \<and> createAlgorithm 2 p = Some (RecursiveTaskLfp p)
   \<and> createAlgorithm 3 p = Some TopDownMaxSeqLfp
   \<and> createAlgorithm 4 p = Some TopDownSingleSeqLfp
   \<and> createAlgorithm 5 p = Some TopDownSingleOmpLfp
   \<and> createAlgorithm 6 p = Some DoubleDropSeqLfp
   \<and> createAlgorithm 7 p = Some DoubleDropOmpLfp
   \<and> (length argv = 5 \<longrightarrow>
        main e argv w =
          (case executeMeasurement e (argv ! 1) (argv ! 2) (atoi (argv ! 3)) (argv ! 4) 0 w of
             (None, w') \<Rightarrow> (Exit 0, w')
           | (Some f, w') \<Rightarrow> (Crash f, w')))
   \<and> (5 < length argv \<longrightarrow>
        main e argv w =
          (case executeMeasurement e (argv ! 1) (argv ! 2) (atoi (argv ! 3)) (argv ! 4)
                  (atoi (argv ! 5)) w of
             (None, w') \<Rightarrow> (Exit 0, w')
           | (Some f, w') \<Rightarrow> (Crash f, w')))"
proof (intro conjI impI)
  assume m: "p \<noteq> 0 \<and> 3 \<le> i \<and> i \<le> 5"
  then show a: "createMultipleAlgorithm i p
        = Some (if i = 3 then TopDownMaxSeqLfp else if i = 4 then TopDownSingleSeqLfp
                else TopDownSingleOmpLfp)"
    by (simp add: createMultipleAlgorithm_Some)
  from m show "calls (snd (executeMeasurement e dir outl i out p w))
          = calls w @
              [ExecuteMultiple
                 (if i = 3 then TopDownMaxSeqLfp else if i = 4 then TopDownSingleSeqLfp
                  else TopDownSingleOmpLfp)
                 (loadGdal e dir) (loadOutletLocations w outl)]"
    using a by (intro executeMeasurement_multi(2)) simp_all
next
  assume s: "\<not> (p \<noteq> 0 \<and> 3 \<le> i \<and> i \<le> 5)"
  show "calls (snd (executeMeasurement e dir outl i out p w))
          = calls w @
              (case loadOutletLocations w outl of
                 [] \<Rightarrow> []
               | outlet0 # _ \<Rightarrow>
                   (case createAlgorithm i p of
                      None \<Rightarrow> []
                    | Some a \<Rightarrow> [Execute a (loadGdal e dir) outlet0]))"
  proof (cases "loadOutletLocations w outl")
    case Nil
    with s show ?thesis
      by (simp add: executeMeasurement_single_empty(2))
  next
    case (Cons o0 os)
    with s show ?thesis
      by (cases "createAlgorithm i p")
         (simp_all add: executeMeasurement_single_null(2) executeMeasurement_single_run(2))
  qed
next
  assume "1 \<le> i \<and> i \<le> 7"
  then show "createAlgorithm i p \<noteq> None"
    by (simp add: createAlgorithm_None)
next
  assume "length argv = 5"
  then show "main e argv w =
          (case executeMeasurement e (argv ! 1) (argv ! 2) (atoi (argv ! 3)) (argv ! 4) 0 w of
             (None, w') \<Rightarrow> (Exit 0, w')
           | (Some f, w') \<Rightarrow> (Crash f, w'))"
    by (simp add: main_run)
next
  assume "5 < length argv"
  then show "main e argv w =
          (case executeMeasurement e (argv ! 1) (argv ! 2) (atoi (argv ! 3)) (argv ! 4)
                  (atoi (argv ! 5)) w of
             (None, w') \<Rightarrow> (Exit 0, w')
           | (Some f, w') \<Rightarrow> (Crash f, w'))"
    by (simp add: main_run)
qed (simp_all add: createAlgorithm_def)

theorem executeMeasurement_dispatch_witness:
  "calls (snd (main sample_collaborators
                 [''lfp'', ''dir.tif'', ''outlets.txt'', ''3'', ''out.csv'', ''1'']
                 (sample_world ''1 2 3 4 5 6'')))
     = [ExecuteMultiple TopDownMaxSeqLfp sample_matrix
          [\<lparr>row = 1, col = 2\<rparr>, \<lparr>row = 4, col = 5\<rparr>]]
   \<and> calls (snd (main sample_collaborators
                 [''lfp'', ''dir.tif'', ''outlets.txt'', ''3'', ''out.csv'']
                 (sample_world ''1 2 3 4 5 6'')))
     = [Execute TopDownMaxSeqLfp sample_matrix \<lparr>row = 1, col = 2\<rparr>]
   \<and> calls (snd (main sample_collaborators
                 [''lfp'', ''dir.tif'', ''outlets.txt'', ''2'', ''out.csv'', ''16'']
                 (sample_world ''1 2 3 4 5 6'')))
     = [Execute (RecursiveTaskLfp 16) sample_matrix \<lparr>row = 1, col = 2\<rparr>]"
proof -
  let ?w = "sample_world ''1 2 3 4 5 6''"
  have l: "loadOutletLocations ?w ''outlets.txt''
             = [\<lparr>row = 1, col = 2\<rparr>, \<lparr>row = 4, col = 5\<rparr>]"
    by code_simp
  have c: "calls ?w = []" "loadGdal sample_collaborators ''dir.tif'' = sample_matrix"
    by (simp_all add: sample_world_def sample_collaborators_def)
  have a: "atoi ''3'' = 3" "atoi ''1'' = 1" "atoi ''2'' = 2" "atoi ''16'' = 16"
    by code_simp+
  have s: "snd (case x of (None, w') \<Rightarrow> (Exit 0, w') | (Some f, w') \<Rightarrow> (Crash f, w')) = snd x"
    for x :: "fault option \<times> world"
    by (simp split: prod.splits option.splits)
  note multi = executeMeasurement_dispatch
    [where p = 1 and i = 3 and e = sample_collaborators and dir = "''dir.tif''"
       and outl = "''outlets.txt''" and out = "''out.csv''" and w = ?w
       and argv = "[''lfp'', ''dir.tif'', ''outlets.txt'', ''3'', ''out.csv'', ''1'']"]
  note single = executeMeasurement_dispatch
    [where p = 0 and i = 3 and e = sample_collaborators and dir = "''dir.tif''"
       and outl = "''outlets.txt''" and out = "''out.csv''" and w = ?w
       and argv = "[''lfp'', ''dir.tif'', ''outlets.txt'', ''3'', ''out.csv'']"]
  note task = executeMeasurement_dispatch
    [where p = 16 and i = 2 and e = sample_collaborators and dir = "''dir.tif''"
       and outl = "''outlets.txt''" and out = "''out.csv''" and w = ?w
       and argv = "[''lfp'', ''dir.tif'', ''outlets.txt'', ''2'', ''out.csv'', ''16'']"]
  from multi have "calls (snd (main sample_collaborators
                 [''lfp'', ''dir.tif'', ''outlets.txt'', ''3'', ''out.csv'', ''1''] ?w))
     = [ExecuteMultiple TopDownMaxSeqLfp sample_matrix
          [\<lparr>row = 1, col = 2\<rparr>, \<lparr>row = 4, col = 5\<rparr>]]"
    by (simp add: l c a s)
  moreover from single have "calls (snd (main sample_collaborators
                 [''lfp'', ''dir.tif'', ''outlets.txt'', ''3'', ''out.csv''] ?w))
     = [Execute TopDownMaxSeqLfp sample_matrix \<lparr>row = 1, col = 2\<rparr>]"
    by (simp add: l c a s)
  moreover from task have "calls (snd (main sample_collaborators
                 [''lfp'', ''dir.tif'', ''outlets.txt'', ''2'', ''out.csv'', ''16''] ?w))
     = [Execute (RecursiveTaskLfp 16) sample_matrix \<lparr>row = 1, col = 2\<rparr>]"
    by (simp add: l c a s)
  ultimately show ?thesis by simp
qed

text \<open>
  C2 as stated fails: the invocation with no positional argument has fewer than four
  arguments and exits with code 0.
\<close>

theorem main_exit_code_counterexample:
  "length [''lfp''] < 4
   \<and> fst (main sample_collaborators [''lfp''] (sample_world [])) = Exit 0"
  by (simp add: main_def)

text \<open>
  C2, as amended. For every invocation with fewer than three positional arguments
  (\<open>argc < 4\<close>) the exit code is 0: the usage text is printed, no algorithm is called and
  no file is written. For every invocation whose measurement returns, the exit code is
  0 as well.
\<close>

theorem main_exit_code:
  "(length argv < 4 \<longrightarrow>
      fst (main e argv w) = Exit 0
      \<and> stdout (snd (main e argv w)) = stdout w @
           ''required arguments:\<newline> 1.  flow direction filename\<newline> 2.  outlet location filename (containing row and column coordinates, one-based indexing)\<newline> 3.  algorithm index\<newline> 4.  output filename\<newline>(5.) algorithm parameter (task-based recursive: task creation limit, top-down: 1 for all outlets (default: only first outlet))\<newline>\<newline>available algorithms:\<newline> 1.  recursive (sequential)\<newline> 2.  recursive (task-based parallel)\<newline> 3.  top-down: maximum length (sequential)\<newline> 4.  top-down: single update (sequential)\<newline> 5.  top-down: single update (parallel)\<newline> 6.  double drop (sequential)\<newline> 7.  double drop (parallel)\<newline>''
      \<and> calls (snd (main e argv w)) = calls w
      \<and> files (snd (main e argv w)) = files w)
   \<and> (4 < length argv
        \<and> fst (executeMeasurement e (argv ! 1) (argv ! 2) (atoi (argv ! 3)) (argv ! 4)
                 (if 5 < length argv then atoi (argv ! 5) else 0) w) = None
        \<longrightarrow> fst (main e argv w) = Exit 0)"
proof (intro conjI impI)
  assume "4 < length argv
    \<and> fst (executeMeasurement e (argv ! 1) (argv ! 2) (atoi (argv ! 3)) (argv ! 4)
             (if 5 < length argv then atoi (argv ! 5) else 0) w) = None"
  then show "fst (main e argv w) = Exit 0"
    by (simp add: main_run_fst)
qed (simp_all add: main_usage printUsage_stdout)

theorem main_exit_code_witness:
  "fst (main sample_collaborators [''lfp'', ''dir.tif''] (sample_world [])) = Exit 0
   \<and> calls (snd (main sample_collaborators [''lfp'', ''dir.tif''] (sample_world []))) = []
   \<and> fst (main sample_collaborators [''lfp'', ''dir.tif'', ''outlets.txt'', ''1'', ''out.csv'']
            (sample_world ''2 2 1'')) = Exit 0"
proof -
  have run: "fst (executeMeasurement sample_collaborators ''dir.tif'' ''outlets.txt'' 1 ''out.csv'' 0
                (sample_world ''2 2 1'')) = None"
    by code_simp
  have a3: "atoi ''1'' = 1"
    by code_simp
  from main_exit_code [of "[''lfp'', ''dir.tif'']" sample_collaborators "sample_world []"]
  have "fst (main sample_collaborators [''lfp'', ''dir.tif''] (sample_world [])) = Exit 0
    \<and> calls (snd (main sample_collaborators [''lfp'', ''dir.tif''] (sample_world []))) = []"
    by (simp add: sample_world_def)
  moreover
  from main_exit_code [of "[''lfp'', ''dir.tif'', ''outlets.txt'', ''1'', ''out.csv'']"
      sample_collaborators "sample_world ''2 2 1''"]
  have "fst (main sample_collaborators [''lfp'', ''dir.tif'', ''outlets.txt'', ''1'', ''out.csv'']
            (sample_world ''2 2 1'')) = Exit 0"
    by (simp add: run a3)
  ultimately show ?thesis by simp
qed

text \<open>
  C3, at the failing input. With three positional arguments (\<open>argc = 4\<close>) the guard
  \<^verbatim>\<open>argc < 4\<close> does not hold: the usage text is not printed, standard output is as it
  was, and the run ends where the output filename is built from the null entry
  \<^verbatim>\<open>argv[4]\<close>. No algorithm is called.
\<close>

theorem main_three_positional_no_usage:
  "main e [''lfp'', ''dir.tif'', ''outlets.txt'', ''1''] w = (Crash StringFromNull, w)"
  by (simp add: main_def arg_def Let_def)

text \<open>
  C4 as stated fails: a file whose second line is not a triple of integers raises no
  error. Loading returns the location read from the first line, and the runner goes on
  to call the algorithm on it; the third line is never read.
\<close>

theorem loadOutletLocations_malformed_counterexample:
  "loadOutletLocations (sample_world ''1 2 3\<newline>x y z\<newline>4 5 6\<newline>'') ''outlets.txt''
     = [\<lparr>row = 1, col = 2\<rparr>]
   \<and> calls (snd (main sample_collaborators [''lfp'', ''dir.tif'', ''outlets.txt'', ''1'', ''out.csv'']
            (sample_world ''1 2 3\<newline>x y z\<newline>4 5 6\<newline>'')))
       = [Execute RecursiveSeqLfp sample_matrix \<lparr>row = 1, col = 2\<rparr>]"
proof -
  have "loadOutletLocations (sample_world ''1 2 3\<newline>x y z\<newline>4 5 6\<newline>'') ''outlets.txt''
     = [\<lparr>row = 1, col = 2\<rparr>]"
    by code_simp
  moreover have "calls (snd (main sample_collaborators [''lfp'', ''dir.tif'', ''outlets.txt'', ''1'', ''out.csv'']
            (sample_world ''1 2 3\<newline>x y z\<newline>4 5 6\<newline>'')))
       = [Execute RecursiveSeqLfp sample_matrix \<lparr>row = 1, col = 2\<rparr>]"
    by code_simp
  ultimately show ?thesis by simp
qed

text \<open>
  C4, as amended. Loading raises no error on malformed text. When the file is the text
  of well-formed triples followed by a rest from which no further triple can be read in
  full (the rest does not continue the last numeral), \<^verbatim>\<open>loadOutletLocations\<close> stops at
  that rest and returns the locations of the triples before it.
\<close>

theorem loadOutletLocations_stops_silently:
  "list_all well_formed ts \<and> separated ts \<and> (ts = [] \<or> delimited rest)
     \<and> failed (snd (extract_triple \<lparr>content = rest, failed = False\<rparr>))
     \<and> files w name = Some (file_text ts rest)
   \<longrightarrow> loadOutletLocations w name = map cell_of ts"
  using loadOutletLocations_prefix [of ts rest w name] by blast

theorem loadOutletLocations_stops_silently_witness:
  "loadOutletLocations (sample_world ''1 2 3\<newline>x y z\<newline>4 5 6\<newline>'') ''outlets.txt''
     = [\<lparr>row = 1, col = 2\<rparr>]"
proof -
  let ?t = "\<lparr>lead = [], row_text = ''1'', gap1 = '' '', col_text = ''2'', gap2 = '' '',
             label_text = ''3''\<rparr>"
  let ?rest = "''\<newline>x y z\<newline>4 5 6\<newline>''"
  have wf: "list_all well_formed [?t]"
    by (simp add: well_formed_def is_numeral_def numeral_value_def isspace_def isdigit_def
          representable_def INT_MIN_def INT_MAX_def decimal_def digit_value_def)
  have sep: "separated [?t]" and d: "delimited ?rest"
    by (simp_all add: delimited_def isdigit_def)
  have x: "failed (snd (extract_triple \<lparr>content = ?rest, failed = False\<rparr>))"
    by code_simp
  have f: "files (sample_world ''1 2 3\<newline>x y z\<newline>4 5 6\<newline>'') ''outlets.txt''
             = Some (file_text [?t] ?rest)"
    by (simp add: sample_world_def file_text_def text_of_def)
  have c: "map cell_of [?t] = [\<lparr>row = 1, col = 2\<rparr>]"
    by (simp add: cell_of_def numeral_value_def decimal_def digit_value_def)
  from loadOutletLocations_stops_silently
    [where ts = "[?t]" and rest = ?rest
       and w = "sample_world ''1 2 3\<newline>x y z\<newline>4 5 6\<newline>''" and name = "''outlets.txt''"]
    wf sep d x f
  have "loadOutletLocations (sample_world ''1 2 3\<newline>x y z\<newline>4 5 6\<newline>'') ''outlets.txt''
          = map cell_of [?t]"
    by blast
  with c show ?thesis by simp
qed

text \<open>
  C5 as stated fails: a label that does not fit an \<^verbatim>\<open>int\<close> is an integer, but its
  extraction sets the fail bit, so the file of the two triples \<^verbatim>\<open>1 2 3000000000\<close> and
  \<^verbatim>\<open>4 5 6\<close> yields no location at all.
\<close>

theorem loadOutletLocations_overflow_counterexample:
  "loadOutletLocations (sample_world ''1 2 3000000000\<newline>4 5 6\<newline>'') ''outlets.txt'' = []
   \<and> \<not> representable 3000000000"
proof -
  have "loadOutletLocations (sample_world ''1 2 3000000000\<newline>4 5 6\<newline>'') ''outlets.txt'' = []"
    by code_simp
  moreover have "\<not> representable 3000000000"
    by (simp add: representable_def INT_MAX_def)
  ultimately show ?thesis by simp
qed

text \<open>
  C5, as amended. For every file that consists of white-space-separated triples of
  numerals, each the value of an \<^verbatim>\<open>int\<close>, with any white space (blank lines included)
  before, between and after them, \<^verbatim>\<open>loadOutletLocations\<close> returns the (row, col) pairs of
  the triples in file order; the labels are read and dropped, and the end of the file
  ends the loop.
\<close>

theorem loadOutletLocations_well_formed:
  "list_all well_formed ts \<and> separated ts \<and> list_all isspace trailing
     \<and> files w name = Some (file_text ts trailing)
   \<longrightarrow> loadOutletLocations w name = map cell_of ts"
proof (intro impI)
  assume h: "list_all well_formed ts \<and> separated ts \<and> list_all isspace trailing
     \<and> files w name = Some (file_text ts trailing)"
  then have "failed (snd (extract_triple \<lparr>content = trailing, failed = False\<rparr>))"
    by (intro extract_triple_fails_first extract_int_blank) simp
  moreover from h have "ts = [] \<or> delimited trailing"
    by (cases trailing) (auto simp: delimited_def dest: isdigit_not_isspace)
  ultimately show "loadOutletLocations w name = map cell_of ts"
    using h by (intro loadOutletLocations_prefix [where rest = trailing]) simp_all
qed

theorem loadOutletLocations_well_formed_witness:
  "loadOutletLocations (sample_world ''  12 7 1\<newline>\<newline>+3 -4 9 '') ''outlets.txt''
     = [\<lparr>row = 12, col = 7\<rparr>, \<lparr>row = 3, col = - 4\<rparr>]"
proof -
  let ?t1 = "\<lparr>lead = ''  '', row_text = ''12'', gap1 = '' '', col_text = ''7'', gap2 = '' '',
              label_text = ''1''\<rparr>"
  let ?t2 = "\<lparr>lead = ''\<newline>\<newline>'', row_text = ''+3'', gap1 = '' '', col_text = ''-4'', gap2 = '' '',
              label_text = ''9''\<rparr>"
  have wf: "list_all well_formed [?t1, ?t2]"
    by (simp add: well_formed_def is_numeral_def numeral_value_def isspace_def isdigit_def
          representable_def INT_MIN_def INT_MAX_def decimal_def digit_value_def)
  have sep: "separated [?t1, ?t2]" and tr: "list_all isspace '' ''"
    by (simp_all add: isspace_def)
  have f: "files (sample_world ''  12 7 1\<newline>\<newline>+3 -4 9 '') ''outlets.txt''
             = Some (file_text [?t1, ?t2] '' '')"
    by (simp add: sample_world_def file_text_def text_of_def)
  have c: "map cell_of [?t1, ?t2] = [\<lparr>row = 12, col = 7\<rparr>, \<lparr>row = 3, col = - 4\<rparr>]"
    by (simp add: cell_of_def numeral_value_def decimal_def digit_value_def)
  from loadOutletLocations_well_formed
    [where ts = "[?t1, ?t2]" and trailing = "'' ''"
       and w = "sample_world ''  12 7 1\<newline>\<newline>+3 -4 9 ''" and name = "''outlets.txt''"]
    wf sep tr f
  have "loadOutletLocations (sample_world ''  12 7 1\<newline>\<newline>+3 -4 9 '') ''outlets.txt''
          = map cell_of [?t1, ?t2]"
    by blast
  with c show ?thesis by simp
qed

text \<open>
  C6 as stated fails: the source does not test whether the output file could be opened.
  A run on the outlet (2, 2) whose output name lies in a directory that does not exist
  returns from the measurement, exits with code 0 and leaves no output file.
\<close>

theorem executeMeasurement_csv_counterexample:
  "\<not> writable (sample_world ''2 2 1'') ''nodir/out.csv''
   \<and> fst (main sample_collaborators [''lfp'', ''dir.tif'', ''outlets.txt'', ''1'', ''nodir/out.csv'']
            (sample_world ''2 2 1'')) = Exit 0
   \<and> files (snd (main sample_collaborators
                   [''lfp'', ''dir.tif'', ''outlets.txt'', ''1'', ''nodir/out.csv'']
                   (sample_world ''2 2 1''))) ''nodir/out.csv'' = None"
proof -
  have "\<not> writable (sample_world ''2 2 1'') ''nodir/out.csv''"
    by (simp add: sample_world_def)
  moreover have "fst (main sample_collaborators
            [''lfp'', ''dir.tif'', ''outlets.txt'', ''1'', ''nodir/out.csv'']
            (sample_world ''2 2 1'')) = Exit 0"
    by code_simp
  moreover have "files (snd (main sample_collaborators
                   [''lfp'', ''dir.tif'', ''outlets.txt'', ''1'', ''nodir/out.csv'']
                   (sample_world ''2 2 1''))) ''nodir/out.csv'' = None"
    by code_simp
  ultimately show ?thesis by simp
qed

text \<open>
  C6, as amended. When the measurement returns and the output file can be opened, the
  file holds the header line \<^verbatim>\<open>row,column\<close> followed by one line \<^verbatim>\<open>row,col\<close> for each
  source location returned, in the order returned. In the multi-outlet branch these are
  the elements of the vector \<^verbatim>\<open>executeMultiple\<close> returned for the whole outlet list;
  when the algorithm meets its contract, that is one line for each input outlet, in
  input order, the i-th line carrying the source of the i-th outlet. In the single-outlet
  branch it is exactly one line, carrying the source \<^verbatim>\<open>execute\<close> returned for the first
  outlet.
\<close>

theorem executeMeasurement_csv:
  "executeMeasurement e dir outl i out p w = (None, w') \<and> writable w out \<longrightarrow>
     (if p \<noteq> 0 \<and> 3 \<le> i \<and> i \<le> 5
      then \<exists>a body.
             createMultipleAlgorithm i p = Some a
             \<and> files w' out = Some body
             \<and> lines_of body
                 = ''row,column'' #
                   map (\<lambda>c. show_int (row c) @ '','' @ show_int (col c))
                     (executeMultiple e a (loadGdal e dir) (loadOutletLocations w outl))
             \<and> (multi_outlet_contract e \<longrightarrow>
                  lines_of body
                    = ''row,column'' #
                      map (\<lambda>outlet. show_int (row (execute e a (loadGdal e dir) outlet)) @ '','' @
                                     show_int (col (execute e a (loadGdal e dir) outlet)))
                        (loadOutletLocations w outl))
      else \<exists>a outlet0 rest body.
             createAlgorithm i p = Some a
             \<and> loadOutletLocations w outl = outlet0 # rest
             \<and> files w' out = Some body
             \<and> lines_of body
                 = [''row,column'',
                    show_int (row (execute e a (loadGdal e dir) outlet0)) @ '','' @
                    show_int (col (execute e a (loadGdal e dir) outlet0))])"
proof (intro impI)
  assume h: "executeMeasurement e dir outl i out p w = (None, w') \<and> writable w out"
  then have r: "fst (executeMeasurement e dir outl i out p w) = None"
    and w': "w' = snd (executeMeasurement e dir outl i out p w)"
    and wr: "writable w out"
    by simp_all
  let ?outlets = "loadOutletLocations w outl"
  let ?m = "loadGdal e dir"
  let ?line = "\<lambda>c. show_int (row c) @ '','' @ show_int (col c)"
  show "if p \<noteq> 0 \<and> 3 \<le> i \<and> i \<le> 5
      then \<exists>a body.
             createMultipleAlgorithm i p = Some a
             \<and> files w' out = Some body
             \<and> lines_of body = ''row,column'' # map ?line (executeMultiple e a ?m ?outlets)
             \<and> (multi_outlet_contract e \<longrightarrow>
                  lines_of body
                    = ''row,column'' #
                      map (\<lambda>outlet. show_int (row (execute e a ?m outlet)) @ '','' @
                                     show_int (col (execute e a ?m outlet))) ?outlets)
      else \<exists>a outlet0 rest body.
             createAlgorithm i p = Some a
             \<and> ?outlets = outlet0 # rest
             \<and> files w' out = Some body
             \<and> lines_of body
                 = [''row,column'',
                    show_int (row (execute e a ?m outlet0)) @ '','' @
                    show_int (col (execute e a ?m outlet0))]"
  proof (cases "p \<noteq> 0 \<and> 3 \<le> i \<and> i \<le> 5")
    case True
    then obtain a where a: "createMultipleAlgorithm i p = Some a"
      by (auto simp: createMultipleAlgorithm_Some)
    let ?sources = "executeMultiple e a ?m ?outlets"
    let ?body = "csvHeader @ concat (map csvLine ?sources)"
    from True a r have "int (length ?sources) \<le> INT_MAX"
      by (simp add: executeMeasurement_multi(1) split: if_splits)
    with True a wr have f: "files w' out = Some ?body"
      by (simp add: w' executeMeasurement_multi(3))
    have l: "lines_of ?body = ''row,column'' # map ?line ?sources"
      by (rule lines_of_csv)
    have c: "lines_of ?body
               = ''row,column'' #
                 map (\<lambda>outlet. show_int (row (execute e a ?m outlet)) @ '','' @
                                show_int (col (execute e a ?m outlet))) ?outlets"
      if "multi_outlet_contract e"
    proof -
      from that have "?sources = map (execute e a ?m) ?outlets"
        by (simp add: multi_outlet_contract_def)
      with l show ?thesis
        by (simp add: comp_def)
    qed
    from a f l c have "\<exists>a body.
             createMultipleAlgorithm i p = Some a
             \<and> files w' out = Some body
             \<and> lines_of body = ''row,column'' # map ?line (executeMultiple e a ?m ?outlets)
             \<and> (multi_outlet_contract e \<longrightarrow>
                  lines_of body
                    = ''row,column'' #
                      map (\<lambda>outlet. show_int (row (execute e a ?m outlet)) @ '','' @
                                     show_int (col (execute e a ?m outlet))) ?outlets)"
      by blast
    with True show ?thesis
      by (simp only: simp_thms if_True)
  next
    case False
    from r False obtain outlet0 rest where o: "?outlets = outlet0 # rest"
      by (cases ?outlets) (simp_all add: executeMeasurement_single_empty(1))
    from r False o obtain a where a: "createAlgorithm i p = Some a"
      by (cases "createAlgorithm i p") (simp_all add: executeMeasurement_single_null(1))
    let ?body = "csvHeader @ concat (map csvLine [execute e a ?m outlet0])"
    from False o a wr have f: "files w' out = Some ?body"
      by (simp add: w' executeMeasurement_single_run(3))
    have "lines_of ?body = ''row,column'' # map ?line [execute e a ?m outlet0]"
      by (rule lines_of_csv)
    then have l: "lines_of ?body
                 = [''row,column'',
                    show_int (row (execute e a ?m outlet0)) @ '','' @
                    show_int (col (execute e a ?m outlet0))]"
      by simp
    from a o f l have "\<exists>a outlet0 rest body.
             createAlgorithm i p = Some a
             \<and> ?outlets = outlet0 # rest
             \<and> files w' out = Some body
             \<and> lines_of body
                 = [''row,column'',
                    show_int (row (execute e a ?m outlet0)) @ '','' @
                    show_int (col (execute e a ?m outlet0))]"
      by blast
    with False show ?thesis
      by (simp only: if_False)
  qed
qed

theorem executeMeasurement_csv_witness:
  "multi_outlet_contract sample_collaborators
   \<and> files (snd (executeMeasurement sample_collaborators ''dir.tif'' ''outlets.txt'' 3 ''out.csv'' 1
                 (sample_world ''1 2 3 3 1 6''))) ''out.csv''
     = Some ''row,column\<newline>1,2\<newline>3,1\<newline>''
   \<and> lines_of ''row,column\<newline>1,2\<newline>3,1\<newline>'' = [''row,column'', ''1,2'', ''3,1'']
   \<and> files (snd (executeMeasurement sample_collaborators ''dir.tif'' ''outlets.txt'' 7 ''out.csv'' 1
                 (sample_world ''1 2 3 3 1 6''))) ''out.csv''
     = Some ''row,column\<newline>1,2\<newline>''
   \<and> lines_of ''row,column\<newline>1,2\<newline>'' = [''row,column'', ''1,2'']"
proof -
  let ?w = "sample_world ''1 2 3 3 1 6''"
  let ?multi = "executeMeasurement sample_collaborators ''dir.tif'' ''outlets.txt'' 3 ''out.csv'' 1 ?w"
  let ?single = "executeMeasurement sample_collaborators ''dir.tif'' ''outlets.txt'' 7 ''out.csv'' 1 ?w"
  have k: "multi_outlet_contract sample_collaborators"
    by (simp add: multi_outlet_contract_def sample_collaborators_def)
  have wr: "writable ?w ''out.csv''"
    by (simp add: sample_world_def)
  have l: "loadOutletLocations ?w ''outlets.txt'' = [\<lparr>row = 1, col = 2\<rparr>, \<lparr>row = 3, col = 1\<rparr>]"
    by code_simp
  have s: "show_int 1 = ''1''" "show_int 2 = ''2''" "show_int 3 = ''3''"
    by code_simp+
  have e: "executeMultiple sample_collaborators a m cs = cs"
    "execute sample_collaborators a m c = c" for a m cs c
    by (simp_all add: sample_collaborators_def)
  have fm: "files (snd ?multi) ''out.csv'' = Some ''row,column\<newline>1,2\<newline>3,1\<newline>''"
    by code_simp
  have fs: "files (snd ?single) ''out.csv'' = Some ''row,column\<newline>1,2\<newline>''"
    by code_simp
  have "fst ?multi = None"
    by code_simp
  then have "?multi = (None, snd ?multi)"
    by (simp add: prod_eq_iff)
  with executeMeasurement_csv
    [where e = sample_collaborators and dir = "''dir.tif''" and outl = "''outlets.txt''" and i = 3
       and out = "''out.csv''" and p = 1 and w = ?w and w' = "snd ?multi"] wr k
  have "lines_of ''row,column\<newline>1,2\<newline>3,1\<newline>'' = [''row,column'', ''1,2'', ''3,1'']"
    by (auto simp: l s e fm createMultipleAlgorithm_def)
  moreover
  have "fst ?single = None"
    by code_simp
  then have "?single = (None, snd ?single)"
    by (simp add: prod_eq_iff)
  with executeMeasurement_csv
    [where e = sample_collaborators and dir = "''dir.tif''" and outl = "''outlets.txt''" and i = 7
       and out = "''out.csv''" and p = 1 and w = ?w and w' = "snd ?single"] wr
  have "lines_of ''row,column\<newline>1,2\<newline>'' = [''row,column'', ''1,2'']"
    by (auto simp: l s e fs createAlgorithm_def)
  ultimately show ?thesis
    using k fm fs by simp
qed

text \<open>
  C7, in general and at the failing input. For an index outside 1..7 no algorithm
  object is created: \<^verbatim>\<open>createAlgorithm\<close> and \<^verbatim>\<open>createMultipleAlgorithm\<close> return the
  null pointer and the label is empty. The run takes the single-outlet branch and, when
  there is a first outlet, calls \<^verbatim>\<open>execute\<close> through the null pointer: no error is
  reported; no algorithm has been called and no file written at that point.
\<close>

theorem executeMeasurement_unknown_algorithm:
  "(i < 1 \<or> 7 < i) \<and> loadOutletLocations w outl = o0 # os \<longrightarrow>
     createAlgorithm i p = None \<and> createMultipleAlgorithm i p = None \<and> algorithmLabel i = []
     \<and> fst (executeMeasurement e dir outl i out p w) = Some NullPointerCall
     \<and> calls (snd (executeMeasurement e dir outl i out p w)) = calls w
     \<and> files (snd (executeMeasurement e dir outl i out p w)) = files w"
proof (intro impI)
  assume a: "(i < 1 \<or> 7 < i) \<and> loadOutletLocations w outl = o0 # os"
  then have s: "\<not> (p \<noteq> 0 \<and> 3 \<le> i \<and> i \<le> 5)" and n: "createAlgorithm i p = None"
    by (auto simp: createAlgorithm_None)
  from a have "createMultipleAlgorithm i p = None" "algorithmLabel i = []"
    by (auto simp: createMultipleAlgorithm_def algorithmLabel_def)
  with a s n show "createAlgorithm i p = None \<and> createMultipleAlgorithm i p = None \<and> algorithmLabel i = []
     \<and> fst (executeMeasurement e dir outl i out p w) = Some NullPointerCall
     \<and> calls (snd (executeMeasurement e dir outl i out p w)) = calls w
     \<and> files (snd (executeMeasurement e dir outl i out p w)) = files w"
    by (simp add: executeMeasurement_single_null)
qed

theorem executeMeasurement_unknown_algorithm_witness:
  "fst (main sample_collaborators [''lfp'', ''dir.tif'', ''outlets.txt'', ''8'', ''out.csv'']
          (sample_world ''1 2 3'')) = Crash NullPointerCall
   \<and> calls (snd (main sample_collaborators [''lfp'', ''dir.tif'', ''outlets.txt'', ''8'', ''out.csv'']
          (sample_world ''1 2 3''))) = []
   \<and> files (snd (main sample_collaborators [''lfp'', ''dir.tif'', ''outlets.txt'', ''8'', ''out.csv'']
          (sample_world ''1 2 3''))) ''out.csv'' = None"
proof -
  have l: "loadOutletLocations (sample_world ''1 2 3'') ''outlets.txt'' = [\<lparr>row = 1, col = 2\<rparr>]"
    by code_simp
  have a: "atoi ''8'' = 8"
    by code_simp
  from executeMeasurement_unknown_algorithm
    [where i = 8 and w = "sample_world ''1 2 3''" and outl = "''outlets.txt''"
       and ?o0.0 = "\<lparr>row = 1, col = 2\<rparr>" and os = "[]" and p = 0 and e = sample_collaborators
       and dir = "''dir.tif''" and out = "''out.csv''"] l
  have "fst (executeMeasurement sample_collaborators ''dir.tif'' ''outlets.txt'' 8 ''out.csv'' 0
              (sample_world ''1 2 3'')) = Some NullPointerCall
     \<and> calls (snd (executeMeasurement sample_collaborators ''dir.tif'' ''outlets.txt'' 8 ''out.csv'' 0
              (sample_world ''1 2 3''))) = []
     \<and> files (snd (executeMeasurement sample_collaborators ''dir.tif'' ''outlets.txt'' 8 ''out.csv'' 0
              (sample_world ''1 2 3''))) ''out.csv'' = None"
    by (simp add: sample_world_def)
  then show ?thesis
    by (simp add: main_run_fst main_run_snd a)
qed

text \<open>
  C8 as stated fails: on the 3 by 3 raster the outlet (4, 4) is not in bounds, and the
  run with that outlet raises no error before it calls the algorithm on (4, 4).
\<close>

theorem outlet_out_of_bounds_counterexample:
  "loadGdal sample_collaborators ''dir.tif'' = sample_matrix
   \<and> height sample_matrix = 3 \<and> width sample_matrix = 3
   \<and> \<not> inBounds sample_matrix \<lparr>row = 4, col = 4\<rparr>
   \<and> loadOutletLocations (sample_world ''4 4 1'') ''outlets.txt'' = [\<lparr>row = 4, col = 4\<rparr>]
   \<and> calls (snd (main sample_collaborators [''lfp'', ''dir.tif'', ''outlets.txt'', ''1'', ''out.csv'']
            (sample_world ''4 4 1'')))
       = [Execute RecursiveSeqLfp sample_matrix \<lparr>row = 4, col = 4\<rparr>]"
proof -
  have "loadGdal sample_collaborators ''dir.tif'' = sample_matrix"
    "height sample_matrix = 3" "width sample_matrix = 3"
    "\<not> inBounds sample_matrix \<lparr>row = 4, col = 4\<rparr>"
    by (simp_all add: sample_collaborators_def sample_matrix_def inBounds_def)
  moreover have "loadOutletLocations (sample_world ''4 4 1'') ''outlets.txt'' = [\<lparr>row = 4, col = 4\<rparr>]"
    by code_simp
  moreover have "calls (snd (main sample_collaborators [''lfp'', ''dir.tif'', ''outlets.txt'', ''1'', ''out.csv'']
            (sample_world ''4 4 1'')))
       = [Execute RecursiveSeqLfp sample_matrix \<lparr>row = 4, col = 4\<rparr>]"
    by code_simp
  ultimately show ?thesis by simp
qed

text \<open>
  C8, as amended. The runner tests no outlet against the bounds of the raster and
  raises no error for one outside them: it runs the algorithm on the location as loaded.
  In the single-outlet branch with an index in 1..7, a first outlet that is not in bounds
  is the argument of the call of \<^verbatim>\<open>execute\<close>; in the multi-outlet branch the whole list,
  with the locations that are not in bounds, is the argument of the call of
  \<^verbatim>\<open>executeMultiple\<close>.
\<close>

theorem executeMeasurement_no_bounds_check:
  "(\<not> (p \<noteq> 0 \<and> 3 \<le> i \<and> i \<le> 5) \<and> 1 \<le> i \<and> i \<le> 7
      \<and> loadOutletLocations w outl = o0 # os \<and> \<not> inBounds (loadGdal e dir) o0 \<longrightarrow>
      (\<exists>a. createAlgorithm i p = Some a
         \<and> calls (snd (executeMeasurement e dir outl i out p w))
             = calls w @ [Execute a (loadGdal e dir) o0]))
   \<and> (p \<noteq> 0 \<and> 3 \<le> i \<and> i \<le> 5
        \<and> list_ex (\<lambda>c. \<not> inBounds (loadGdal e dir) c) (loadOutletLocations w outl) \<longrightarrow>
        (\<exists>a. createMultipleAlgorithm i p = Some a
           \<and> calls (snd (executeMeasurement e dir outl i out p w))
               = calls w @ [ExecuteMultiple a (loadGdal e dir) (loadOutletLocations w outl)]))"
proof (intro conjI impI)
  assume h: "\<not> (p \<noteq> 0 \<and> 3 \<le> i \<and> i \<le> 5) \<and> 1 \<le> i \<and> i \<le> 7
      \<and> loadOutletLocations w outl = o0 # os \<and> \<not> inBounds (loadGdal e dir) o0"
  then obtain a where a: "createAlgorithm i p = Some a"
    using createAlgorithm_None [of i p] by (cases "createAlgorithm i p") auto
  with h have "calls (snd (executeMeasurement e dir outl i out p w))
             = calls w @ [Execute a (loadGdal e dir) o0]"
    by (simp add: executeMeasurement_single_run(2))
  with a show "\<exists>a. createAlgorithm i p = Some a
         \<and> calls (snd (executeMeasurement e dir outl i out p w))
             = calls w @ [Execute a (loadGdal e dir) o0]"
    by blast
next
  assume h: "p \<noteq> 0 \<and> 3 \<le> i \<and> i \<le> 5
        \<and> list_ex (\<lambda>c. \<not> inBounds (loadGdal e dir) c) (loadOutletLocations w outl)"
  then obtain a where a: "createMultipleAlgorithm i p = Some a"
    by (auto simp: createMultipleAlgorithm_Some)
  with h have "calls (snd (executeMeasurement e dir outl i out p w))
               = calls w @ [ExecuteMultiple a (loadGdal e dir) (loadOutletLocations w outl)]"
    by (simp add: executeMeasurement_multi(2))
  with a show "\<exists>a. createMultipleAlgorithm i p = Some a
           \<and> calls (snd (executeMeasurement e dir outl i out p w))
               = calls w @ [ExecuteMultiple a (loadGdal e dir) (loadOutletLocations w outl)]"
    by blast
qed

theorem executeMeasurement_no_bounds_check_witness:
  "calls (snd (executeMeasurement sample_collaborators ''dir.tif'' ''outlets.txt'' 6 ''out.csv'' 0
          (sample_world ''0 7 1'')))
       = [Execute DoubleDropSeqLfp sample_matrix \<lparr>row = 0, col = 7\<rparr>]
   \<and> calls (snd (executeMeasurement sample_collaborators ''dir.tif'' ''outlets.txt'' 4 ''out.csv'' 1
          (sample_world ''1 1 1 0 7 1'')))
       = [ExecuteMultiple TopDownSingleSeqLfp sample_matrix
            [\<lparr>row = 1, col = 1\<rparr>, \<lparr>row = 0, col = 7\<rparr>]]"
proof -
  have l: "loadOutletLocations (sample_world ''0 7 1'') ''outlets.txt'' = [\<lparr>row = 0, col = 7\<rparr>]"
    "loadOutletLocations (sample_world ''1 1 1 0 7 1'') ''outlets.txt''
       = [\<lparr>row = 1, col = 1\<rparr>, \<lparr>row = 0, col = 7\<rparr>]"
    by code_simp+
  have c: "calls (sample_world ''0 7 1'') = []" "calls (sample_world ''1 1 1 0 7 1'') = []"
    "loadGdal sample_collaborators ''dir.tif'' = sample_matrix"
    "\<not> inBounds sample_matrix \<lparr>row = 0, col = 7\<rparr>"
    by (simp_all add: sample_world_def sample_collaborators_def sample_matrix_def inBounds_def)
  from executeMeasurement_no_bounds_check
    [where p = 0 and i = 6 and e = sample_collaborators and dir = "''dir.tif''"
       and outl = "''outlets.txt''" and out = "''out.csv''" and w = "sample_world ''0 7 1''"
       and ?o0.0 = "\<lparr>row = 0, col = 7\<rparr>" and os = "[]"]
  have "calls (snd (executeMeasurement sample_collaborators ''dir.tif'' ''outlets.txt'' 6 ''out.csv'' 0
          (sample_world ''0 7 1'')))
       = [Execute DoubleDropSeqLfp sample_matrix \<lparr>row = 0, col = 7\<rparr>]"
    by (simp add: l c createAlgorithm_def)
  moreover
  from executeMeasurement_no_bounds_check
    [where p = 1 and i = 4 and e = sample_collaborators and dir = "''dir.tif''"
       and outl = "''outlets.txt''" and out = "''out.csv''" and w = "sample_world ''1 1 1 0 7 1''"]
  have "calls (snd (executeMeasurement sample_collaborators ''dir.tif'' ''outlets.txt'' 4 ''out.csv'' 1
          (sample_world ''1 1 1 0 7 1'')))
       = [ExecuteMultiple TopDownSingleSeqLfp sample_matrix
            [\<lparr>row = 1, col = 1\<rparr>, \<lparr>row = 0, col = 7\<rparr>]]"
    by (simp add: l c createMultipleAlgorithm_def)
  ultimately show ?thesis by simp
qed

text \<open>
  C9. With exactly three positional arguments (\<open>argc = 4\<close>) \<^verbatim>\<open>main\<close> does not take
  the usage branch: the entry \<^verbatim>\<open>argv[4]\<close> it reads for the output filename is the null
  entry, and the run ends there with the world unchanged. With at least four positional
  arguments \<^verbatim>\<open>argv[4]\<close> is an argument and that fault does not occur.
\<close>

theorem main_null_output_filename:
  "(length argv = 4 \<longrightarrow>
      \<not> int (length argv) < 4 \<and> arg argv 4 = None \<and> main e argv w = (Crash StringFromNull, w))
   \<and> (4 < length argv \<longrightarrow>
        arg argv 4 = Some (argv ! 4) \<and> fst (main e argv w) \<noteq> Crash StringFromNull)"
proof (intro conjI impI)
  assume long: "4 < length argv"
  define r where "r = fst (executeMeasurement e (argv ! 1) (argv ! 2) (atoi (argv ! 3)) (argv ! 4)
             (if 5 < length argv then atoi (argv ! 5) else 0) w)"
  have "r \<noteq> Some StringFromNull"
    unfolding r_def
    using executeMeasurement_faults
      [of e "argv ! 1" "argv ! 2" "atoi (argv ! 3)" "argv ! 4"
          "if 5 < length argv then atoi (argv ! 5) else 0" w]
    by auto
  moreover from long have "fst (main e argv w) = (case r of None \<Rightarrow> Exit 0 | Some f \<Rightarrow> Crash f)"
    unfolding r_def by (rule main_run_fst)
  ultimately show "fst (main e argv w) \<noteq> Crash StringFromNull"
    by (cases r) simp_all
qed (simp_all add: arg_def main_null)

theorem main_null_output_filename_witness:
  "main sample_collaborators [''lfp'', ''dir.tif'', ''outlets.txt'', ''3''] (sample_world ''1 2 3'')
     = (Crash StringFromNull, sample_world ''1 2 3'')
   \<and> arg [''lfp'', ''dir.tif'', ''outlets.txt'', ''3''] 4 = None
   \<and> arg [''lfp'', ''dir.tif'', ''outlets.txt'', ''3'', ''out.csv''] 4 = Some ''out.csv''
   \<and> fst (main sample_collaborators [''lfp'', ''dir.tif'', ''outlets.txt'', ''3'', ''out.csv'']
            (sample_world ''1 2 3'')) \<noteq> Crash StringFromNull"
  using main_null_output_filename
      [of "[''lfp'', ''dir.tif'', ''outlets.txt'', ''3'']" sample_collaborators "sample_world ''1 2 3''"]
    main_null_output_filename
      [of "[''lfp'', ''dir.tif'', ''outlets.txt'', ''3'', ''out.csv'']" sample_collaborators
          "sample_world ''1 2 3''"]
  by simp

text \<open>
  C10. In the single-outlet branch \<^verbatim>\<open>outletLocations[0]\<close> is read without a test for
  emptiness: when the outlet file yields no location the read is beyond the end of the
  vector, and no algorithm is called and no file written before it; when the list is not
  empty that fault does not occur. A file that cannot be opened, an empty file and a
  file whose first triple is not read in full all yield no location.
\<close>

theorem executeMeasurement_empty_outlets:
  "(\<not> (p \<noteq> 0 \<and> 3 \<le> i \<and> i \<le> 5) \<and> loadOutletLocations w outl = [] \<longrightarrow>
      fst (executeMeasurement e dir outl i out p w) = Some VectorIndexOutOfRange
      \<and> calls (snd (executeMeasurement e dir outl i out p w)) = calls w
      \<and> files (snd (executeMeasurement e dir outl i out p w)) = files w)
   \<and> (loadOutletLocations w outl \<noteq> [] \<longrightarrow>
        fst (executeMeasurement e dir outl i out p w) \<noteq> Some VectorIndexOutOfRange)
   \<and> (files w outl = None \<longrightarrow> loadOutletLocations w outl = [])
   \<and> (files w outl = Some [] \<longrightarrow> loadOutletLocations w outl = [])
   \<and> (files w outl = Some body \<and> failed (snd (extract_triple \<lparr>content = body, failed = False\<rparr>))
        \<longrightarrow> loadOutletLocations w outl = [])"
proof (intro conjI impI)
  assume ne: "loadOutletLocations w outl \<noteq> []"
  then obtain o0 os where l: "loadOutletLocations w outl = o0 # os"
    by (cases "loadOutletLocations w outl") auto
  show "fst (executeMeasurement e dir outl i out p w) \<noteq> Some VectorIndexOutOfRange"
  proof (cases "p \<noteq> 0 \<and> 3 \<le> i \<and> i \<le> 5")
    case True
    then obtain a where "createMultipleAlgorithm i p = Some a"
      by (auto simp: createMultipleAlgorithm_Some)
    with True show ?thesis
      by (simp add: executeMeasurement_multi(1))
  next
    case False
    with l show ?thesis
      by (cases "createAlgorithm i p")
         (simp_all add: executeMeasurement_single_null(1) executeMeasurement_single_run(1))
  qed
next
  assume "files w outl = None"
  then have "failed (snd (extract_triple (open_in w outl)))"
    by (simp add: open_in_def extract_triple_fails_first extract_int_stays_failed)
  then show "loadOutletLocations w outl = []"
    by (simp add: loadOutletLocations_def loop_stops)
next
  assume "files w outl = Some []"
  moreover have "failed (snd (extract_triple \<lparr>content = [], failed = False\<rparr>))"
    by (intro extract_triple_fails_first extract_int_blank) simp
  ultimately show "loadOutletLocations w outl = []"
    by (simp add: loadOutletLocations_def open_in_def loop_stops)
next
  assume "files w outl = Some body \<and> failed (snd (extract_triple \<lparr>content = body, failed = False\<rparr>))"
  then show "loadOutletLocations w outl = []"
    by (simp add: loadOutletLocations_def open_in_def loop_stops)
qed (simp_all add: executeMeasurement_single_empty)

theorem executeMeasurement_empty_outlets_witness:
  "fst (executeMeasurement sample_collaborators ''dir.tif'' ''missing.txt'' 1 ''out.csv'' 0
          (sample_world ''1 2 3'')) = Some VectorIndexOutOfRange
   \<and> calls (snd (executeMeasurement sample_collaborators ''dir.tif'' ''missing.txt'' 1 ''out.csv'' 0
          (sample_world ''1 2 3''))) = []
   \<and> loadOutletLocations (sample_world ''1 2 3'') ''missing.txt'' = []
   \<and> loadOutletLocations (sample_world []) ''outlets.txt'' = []
   \<and> loadOutletLocations (sample_world ''1 x 3'') ''outlets.txt'' = []
   \<and> fst (executeMeasurement sample_collaborators ''dir.tif'' ''outlets.txt'' 1 ''out.csv'' 0
          (sample_world ''1 2 3'')) \<noteq> Some VectorIndexOutOfRange"
proof -
  have f: "files (sample_world ''1 2 3'') ''missing.txt'' = None"
    "files (sample_world []) ''outlets.txt'' = Some []"
    "files (sample_world ''1 x 3'') ''outlets.txt'' = Some ''1 x 3''"
    "calls (sample_world ''1 2 3'') = []"
    by (simp_all add: sample_world_def)
  have x: "failed (snd (extract_triple \<lparr>content = ''1 x 3'', failed = False\<rparr>))"
    by code_simp
  have l: "loadOutletLocations (sample_world ''1 2 3'') ''outlets.txt'' \<noteq> []"
    by code_simp
  note missing = executeMeasurement_empty_outlets
    [where p = 0 and i = 1 and e = sample_collaborators and dir = "''dir.tif''"
       and outl = "''missing.txt''" and out = "''out.csv''" and w = "sample_world ''1 2 3''"]
  from missing f(1) have m: "loadOutletLocations (sample_world ''1 2 3'') ''missing.txt'' = []"
    by blast
  from missing m f(4)
  have "fst (executeMeasurement sample_collaborators ''dir.tif'' ''missing.txt'' 1 ''out.csv'' 0
          (sample_world ''1 2 3'')) = Some VectorIndexOutOfRange
   \<and> calls (snd (executeMeasurement sample_collaborators ''dir.tif'' ''missing.txt'' 1 ''out.csv'' 0
          (sample_world ''1 2 3''))) = []"
    by simp
  moreover
  from executeMeasurement_empty_outlets
    [where w = "sample_world []" and outl = "''outlets.txt''"] f(2)
  have "loadOutletLocations (sample_world []) ''outlets.txt'' = []"
    by blast
  moreover
  from executeMeasurement_empty_outlets
    [where w = "sample_world ''1 x 3''" and outl = "''outlets.txt''" and body = "''1 x 3''"] f(3) x
  have "loadOutletLocations (sample_world ''1 x 3'') ''outlets.txt'' = []"
    by blast
  moreover
  from executeMeasurement_empty_outlets
    [where p = 0 and i = 1 and e = sample_collaborators and dir = "''dir.tif''"
       and outl = "''outlets.txt''" and out = "''out.csv''" and w = "sample_world ''1 2 3''"] l
  have "fst (executeMeasurement sample_collaborators ''dir.tif'' ''outlets.txt'' 1 ''out.csv'' 0
          (sample_world ''1 2 3'')) \<noteq> Some VectorIndexOutOfRange"
    by blast
  ultimately show ?thesis
    using m by simp
qed

end
